theory Spec2Isabelle
  imports Complex_Main "HOL-Library.Word"
begin

section \<open>Data model\<close>

text \<open>
  The solver's scalar type \<open>su2double\<close> is read as a real number: \<open>+\<close>, \<open>-\<close>, \<open>*\<close>,
  \<open>/\<close>, \<open>sqrt\<close>, \<open>exp\<close>, \<open>asin\<close> (\<open>arcsin\<close>), \<open>fabs\<close> (\<open>abs\<close>) and \<open>max\<close> are
  the operations on \<open>real\<close>. Rounding, infinities and NaN are not part of the model.
  Arrays indexed by a dimension or a variable number are functions on \<open>nat\<close>; the
  point, vertex and marker indices are natural numbers.
\<close>

type_synonym su2double = real
type_synonym vec = "nat \<Rightarrow> su2double"
type_synonym mat = "nat \<Rightarrow> nat \<Rightarrow> su2double"

text \<open>
  The enumerations of the option structure. A variable of a C++ enumeration type can hold
  a value that is none of the enumerators; the last constructor of each datatype stands
  for such values.
\<close>

datatype CHT_COUPLING =
    DIRECT_TEMPERATURE_NEUMANN_HEATFLUX
  | AVERAGED_TEMPERATURE_NEUMANN_HEATFLUX
  | DIRECT_TEMPERATURE_ROBIN_HEATFLUX
  | AVERAGED_TEMPERATURE_ROBIN_HEATFLUX
  | CHT_COUPLING_other nat

datatype BC_KIND = HEAT_FLUX | ISOTHERMAL | HEAT_TRANSFER | BC_KIND_other nat

datatype TIME_INT = EULER_IMPLICIT | TIME_INT_other nat

datatype WALL_FUNCTIONS = NO_WALL_FUNCTION | STANDARD_FUNCTION | WALL_FUNCTIONS_other nat

datatype STREAMWISE_PERIODIC = NONE | STREAMWISE_PERIODIC_other nat

text \<open>\<open>SU2_MPI::Error(msg, CURRENT_FUNCTION)\<close> aborts the run; the value carries the message.\<close>

datatype su2_error = SU2_MPI_Error string

text \<open>The configuration store \<open>CConfig\<close>, one field for each getter the kernels call.\<close>

record config =
  GetKind_TimeIntScheme :: TIME_INT
  GetEnergy_Equation :: bool
  GetKind_CHT_Coupling :: CHT_COUPLING
  GetTemperature_Ref :: su2double
  GetViscosity_Ref :: su2double
  GetHeat_Flux_Ref :: su2double
  GetGas_ConstantND :: su2double
  GetPrandtl_Lam :: su2double
  GetPrandtl_Turb :: su2double
  GetMarker_All_TagBound :: "nat \<Rightarrow> string"
  GetMarker_All_PyCustom :: "nat \<Rightarrow> bool"
  GetMarker_All_KindBC :: "nat \<Rightarrow> BC_KIND"
  GetViscous_Wall :: "nat \<Rightarrow> bool"
  GetnMarker_All :: nat
  GetWall_HeatFlux :: "string \<Rightarrow> su2double"
  GetIsothermal_Temperature :: "string \<Rightarrow> su2double"
  GetWall_HeatTransfer_Coefficient :: "string \<Rightarrow> su2double"
  GetWall_HeatTransfer_Temperature :: "string \<Rightarrow> su2double"
  GetWallFunction_Treatment :: "string \<Rightarrow> WALL_FUNCTIONS"
  GetwallModel_MaxIter :: nat
  GetwallModel_RelFac :: su2double
  GetwallModel_Kappa :: su2double
  GetwallModel_B :: su2double
  GetwallModel_MinYPlus :: su2double
  GetKind_Streamwise_Periodic :: STREAMWISE_PERIODIC
  GetStreamwise_Periodic_Temperature :: bool
  GetPeriodic_Translation :: "nat \<Rightarrow> vec"

text \<open>The mesh \<open>CGeometry\<close>: vertices of the boundary markers and the points.\<close>

record geometry =
  nVertex :: "nat \<Rightarrow> nat"
  vertex_GetNode :: "nat \<Rightarrow> nat \<Rightarrow> nat"
  vertex_GetNormal :: "nat \<Rightarrow> nat \<Rightarrow> vec"
  vertex_GetNormal_Neighbor :: "nat \<Rightarrow> nat \<Rightarrow> nat"
  nodes_GetDomain :: "nat \<Rightarrow> bool"
  nodes_GetCoord :: "nat \<Rightarrow> vec"
  nodes_GetGridVel :: "nat \<Rightarrow> vec"
  GetCustomBoundaryHeatFlux :: "nat \<Rightarrow> nat \<Rightarrow> su2double"
  GetCustomBoundaryTemperature :: "nat \<Rightarrow> nat \<Rightarrow> su2double"

text \<open>
  The flow solver object (\<open>CNSSolver\<close>, \<open>CIncNSSolver\<close>) with its \<open>nodes\<close>: the primitive
  state of every point, the old solution, the right-hand side \<open>LinSysRes\<close> (indexed by
  point and variable), the \<open>Jacobian\<close> (indexed by the scalar row and column
  \<open>iPoint * nVar + iVar\<close>), the wall-function caches (indexed by marker and vertex), the
  conjugate heat variables and the lines written to \<open>cout\<close>.
\<close>

record solver =
  nDim :: nat
  nVar :: nat
  Gamma :: su2double
  dynamic_grid :: bool
  Temperature :: "nat \<Rightarrow> su2double"
  Density :: "nat \<Rightarrow> su2double"
  Pressure :: "nat \<Rightarrow> su2double"
  LaminarViscosity :: "nat \<Rightarrow> su2double"
  EddyViscosity :: "nat \<Rightarrow> su2double"
  ThermalConductivity :: "nat \<Rightarrow> su2double"
  SpecificHeatCp :: "nat \<Rightarrow> su2double"
  Velocity :: "nat \<Rightarrow> vec"
  Gradient_Primitive :: "nat \<Rightarrow> mat"
  Velocity_Old :: "nat \<Rightarrow> vec"
  Solution_Old :: "nat \<Rightarrow> vec"
  Res_TruncError :: "nat \<Rightarrow> vec"
  Tau_Wall :: "nat \<Rightarrow> su2double"
  LinSysRes :: "nat \<Rightarrow> vec"
  Jacobian :: mat
  YPlus :: "nat \<Rightarrow> nat \<Rightarrow> su2double"
  EddyViscWall :: "nat \<Rightarrow> nat \<Rightarrow> su2double"
  UTau :: "nat \<Rightarrow> nat \<Rightarrow> su2double"
  ConjugateVar :: "nat \<Rightarrow> nat \<Rightarrow> nat \<Rightarrow> su2double"
  Streamwise_Periodic_IntegratedHeatFlow :: su2double
  Streamwise_Periodic_MassFlow :: su2double
  cout :: "string list"

text \<open>
  \<open>CNumerics::ComputeStressTensor\<close> and \<open>GeometryToolbox::TangentProjection\<close> are
  called by the kernels and defined elsewhere, and so are the constants \<open>EPS\<close> and
  \<open>MAXNDIM\<close>; they are parameters of the model.
\<close>

record numerics =
  EPS :: su2double
  MAXNDIM :: nat
  ComputeStressTensor :: "nat \<Rightarrow> mat \<Rightarrow> su2double \<Rightarrow> mat"
  TangentProjection :: "nat \<Rightarrow> mat \<Rightarrow> vec \<Rightarrow> vec"

section \<open>Collaborators\<close>

text \<open>
  Modelled from the spec: the \<open>GeometryToolbox\<close> queries for dot product, norm and
  distance (section 6, "queries for geometry, distance, normals"), whose definitions are
  not among the source files. Each is the loop over the first \<open>n\<close> components.
\<close>

primrec DotProduct :: "nat \<Rightarrow> vec \<Rightarrow> vec \<Rightarrow> su2double" where
  "DotProduct 0 a b = 0"
| "DotProduct (Suc n) a b = DotProduct n a b + a n * b n"

definition SquaredNorm :: "nat \<Rightarrow> vec \<Rightarrow> su2double" where
  "SquaredNorm n a = DotProduct n a a"

definition Norm :: "nat \<Rightarrow> vec \<Rightarrow> su2double" where
  "Norm n a = sqrt (SquaredNorm n a)"

definition Distance_vec :: "nat \<Rightarrow> vec \<Rightarrow> vec \<Rightarrow> vec" where
  "Distance_vec n a b = (\<lambda>i. if i < n then a i - b i else 0)"

definition Distance :: "nat \<Rightarrow> vec \<Rightarrow> vec \<Rightarrow> su2double" where
  "Distance n a b = Norm n (Distance_vec n a b)"

text \<open>
  Modelled from the spec: the setters of the variable container. The velocity
  Dirichlet value is stored as the "old" velocity of the point (section 4.2, "set old
  velocity equal to either zero or the local grid velocity"), and
  \<open>SetVel_ResTruncError_Zero\<close> clears the momentum entries of the truncation error.
\<close>

definition SetVelocity_Old :: "solver \<Rightarrow> nat \<Rightarrow> vec \<Rightarrow> solver" where
  "SetVelocity_Old s iPoint v =
     s\<lparr>Velocity_Old := (Velocity_Old s)
          (iPoint := (\<lambda>iDim. if iDim < nDim s then v iDim else Velocity_Old s iPoint iDim))\<rparr>"

definition SetVel_ResTruncError_Zero :: "solver \<Rightarrow> nat \<Rightarrow> solver" where
  "SetVel_ResTruncError_Zero s iPoint =
     s\<lparr>Res_TruncError := (Res_TruncError s)
          (iPoint := (\<lambda>iVar. if 1 \<le> iVar \<and> iVar \<le> nDim s then 0
                              else Res_TruncError s iPoint iVar))\<rparr>"

definition SetEnergy_ResTruncError_Zero :: "solver \<Rightarrow> nat \<Rightarrow> solver" where
  "SetEnergy_ResTruncError_Zero s iPoint =
     s\<lparr>Res_TruncError := (Res_TruncError s)
          (iPoint := (Res_TruncError s iPoint)(nDim s + 1 := 0))\<rparr>"

definition SetSolution_Old :: "solver \<Rightarrow> nat \<Rightarrow> nat \<Rightarrow> su2double \<Rightarrow> solver" where
  "SetSolution_Old s iPoint iVar val =
     s\<lparr>Solution_Old := (Solution_Old s)(iPoint := (Solution_Old s iPoint)(iVar := val))\<rparr>"

text \<open>
  Modelled from the spec: the mutating calls of the sparse matrix (section 6:
  \<open>AddBlock2Diag\<close>, \<open>DeleteValsRowi\<close>; section 4.2: "delete off-diagonal, inject unit
  diagonal"). \<open>AddVal2Diag\<close> adds a value to one diagonal entry of the diagonal block.
\<close>

definition DeleteValsRowi :: "mat \<Rightarrow> nat \<Rightarrow> mat" where
  "DeleteValsRowi J i = J(i := (\<lambda>c. if c = i then 1 else 0))"

definition AddBlock2Diag :: "nat \<Rightarrow> mat \<Rightarrow> nat \<Rightarrow> mat \<Rightarrow> mat" where
  "AddBlock2Diag nV J iPoint B =
     (\<lambda>r c. if iPoint * nV \<le> r \<and> r < iPoint * nV + nV \<and> iPoint * nV \<le> c \<and> c < iPoint * nV + nV
             then J r c + B (r - iPoint * nV) (c - iPoint * nV)
             else J r c)"

definition AddVal2Diag :: "nat \<Rightarrow> mat \<Rightarrow> nat \<Rightarrow> nat \<Rightarrow> su2double \<Rightarrow> mat" where
  "AddVal2Diag nV J iPoint iVar val =
     J(iPoint * nV + iVar := (J (iPoint * nV + iVar))
         (iPoint * nV + iVar := J (iPoint * nV + iVar) (iPoint * nV + iVar) + val))"

section \<open>Loops shared by the wall kernels\<close>

text \<open>\<open>for (iDim = 0; iDim < nDim; iDim++) LinSysRes(iPoint, iDim + 1) = 0.0;\<close>\<close>

primrec zero_momentum_residual :: "nat \<Rightarrow> nat \<Rightarrow> (nat \<Rightarrow> vec) \<Rightarrow> (nat \<Rightarrow> vec)" where
  "zero_momentum_residual 0 iPoint R = R"
| "zero_momentum_residual (Suc iDim) iPoint R =
     (let R' = zero_momentum_residual iDim iPoint R
      in R'(iPoint := (R' iPoint)(iDim + 1 := 0)))"

text \<open>\<open>for (iVar = 1; iVar <= nDim; iVar++) Jacobian.DeleteValsRowi(iPoint * nVar + iVar);\<close>\<close>

primrec delete_momentum_rows :: "nat \<Rightarrow> nat \<Rightarrow> nat \<Rightarrow> mat \<Rightarrow> mat" where
  "delete_momentum_rows 0 nV iPoint J = J"
| "delete_momentum_rows (Suc n) nV iPoint J =
     DeleteValsRowi (delete_momentum_rows n nV iPoint J) (iPoint * nV + (n + 1))"

text \<open>\<open>for (iVar = 0; iVar < nVar; ++iVar) Jacobian_i[row][iVar] = 0.0;\<close>\<close>

primrec zero_row :: "nat \<Rightarrow> nat \<Rightarrow> mat \<Rightarrow> mat" where
  "zero_row 0 row B = B"
| "zero_row (Suc iVar) row B =
     (let B' = zero_row iVar row B in B'(row := (B' row)(iVar := 0)))"

text \<open>The velocity Dirichlet part that every wall kernel starts with.\<close>

definition impose_wall_velocity :: "geometry \<Rightarrow> solver \<Rightarrow> nat \<Rightarrow> solver" where
  "impose_wall_velocity geo s iPoint =
     (let s1 = (if dynamic_grid s then SetVelocity_Old s iPoint (nodes_GetGridVel geo iPoint)
                else SetVelocity_Old s iPoint (\<lambda>_. 0));
          s2 = s1\<lparr>LinSysRes := zero_momentum_residual (nDim s1) iPoint (LinSysRes s1)\<rparr>
      in SetVel_ResTruncError_Zero s2 iPoint)"

section \<open>Conjugate heat transfer: the wall temperature\<close>

text \<open>
  \<open>CNSSolver::GetCHTWallTemperature(config, val_marker, iVertex, thermal_conductivity,
  dist_ij, There, Temperature_Ref)\<close>, with the parameters in the order of the signature.
\<close>

definition GetCHTWallTemperature ::
  "solver \<Rightarrow> config \<Rightarrow> nat \<Rightarrow> nat \<Rightarrow> su2double \<Rightarrow> su2double \<Rightarrow> su2double \<Rightarrow> su2double
     \<Rightarrow> su2_error + su2double" where
  "GetCHTWallTemperature s cfg val_marker iVertex thermal_conductivity dist_ij There Temperature_Ref =
     (let Tconjugate = ConjugateVar s val_marker iVertex 0 / Temperature_Ref in
      if GetKind_CHT_Coupling cfg = AVERAGED_TEMPERATURE_NEUMANN_HEATFLUX \<or>
         GetKind_CHT_Coupling cfg = AVERAGED_TEMPERATURE_ROBIN_HEATFLUX then
        (let HF_FactorHere = thermal_conductivity * GetViscosity_Ref cfg / dist_ij;
             HF_FactorConjugate = ConjugateVar s val_marker iVertex 2
         in Inr ((There * HF_FactorHere + Tconjugate * HF_FactorConjugate) /
                 (HF_FactorHere + HF_FactorConjugate)))
      else if GetKind_CHT_Coupling cfg = DIRECT_TEMPERATURE_NEUMANN_HEATFLUX \<or>
              GetKind_CHT_Coupling cfg = DIRECT_TEMPERATURE_ROBIN_HEATFLUX then
        Inr Tconjugate
      else Inl (SU2_MPI_Error ''Unknown CHT coupling method.''))"

section \<open>Compressible solver: heat-flux and heat-transfer walls\<close>

text \<open>\<open>B[row][col] += val\<close> on a dense block.\<close>

definition add_entry :: "mat \<Rightarrow> nat \<Rightarrow> nat \<Rightarrow> su2double \<Rightarrow> mat" where
  "add_entry B row col val = B(row := (B row)(col := B row col + val))"

text \<open>\<open>for (jDim = 0; jDim < nDim; jDim++) B[row][jDim + 1] += f(jDim);\<close>\<close>

primrec add_to_row_loop :: "nat \<Rightarrow> nat \<Rightarrow> (nat \<Rightarrow> su2double) \<Rightarrow> mat \<Rightarrow> mat" where
  "add_to_row_loop 0 row f B = B"
| "add_to_row_loop (Suc jDim) row f B =
     add_entry (add_to_row_loop jDim row f B) row (jDim + 1) (f jDim)"

text \<open>\<open>LinSysRes(iPoint, iVar) += val\<close>\<close>

definition add_residual :: "solver \<Rightarrow> nat \<Rightarrow> nat \<Rightarrow> su2double \<Rightarrow> solver" where
  "add_residual s iPoint iVar val =
     s\<lparr>LinSysRes := (LinSysRes s)(iPoint := (LinSysRes s iPoint)(iVar := LinSysRes s iPoint iVar + val))\<rparr>"

text \<open>
  \<open>CNSSolver::AddDynamicGridResidualContribution\<close>. The scratch block \<open>Jacobian_i\<close> is
  \<open>None\<close> for the null pointer. The result is the block and the two residuals passed by
  reference.
\<close>

definition AddDynamicGridResidualContribution ::
  "numerics \<Rightarrow> solver \<Rightarrow> nat \<Rightarrow> nat \<Rightarrow> geometry \<Rightarrow> vec \<Rightarrow> su2double \<Rightarrow> vec \<Rightarrow> mat option
     \<Rightarrow> su2double \<Rightarrow> su2double \<Rightarrow> mat option \<times> su2double \<times> su2double" where
  "AddDynamicGridResidualContribution X s iPoint Point_Normal geo UnitNormal Area GridVel
       Jacobian_i Res_Conv Res_Visc =
     (let ProjGridVel = Area * DotProduct (nDim s) GridVel UnitNormal;
          Density_i = Density s iPoint;
          Pressure_i = Pressure s iPoint;
          laminar_viscosity = LaminarViscosity s iPoint;
          eddy_viscosity = EddyViscosity s iPoint;
          total_viscosity = laminar_viscosity + eddy_viscosity;
          tau = ComputeStressTensor X (nDim s) (\<lambda>i. Gradient_Primitive s iPoint (i + 1)) total_viscosity;
          tau_vel = (\<lambda>iDim. if iDim < nDim s then DotProduct (nDim s) (tau iDim) GridVel else 0);
          Res_Conv1 = Res_Conv + Pressure_i * ProjGridVel;
          Res_Visc1 = Res_Visc + DotProduct (nDim s) tau_vel UnitNormal * Area
      in case Jacobian_i of
           None \<Rightarrow> (None, Res_Conv1, Res_Visc1)
         | Some B0 \<Rightarrow>
            (let row = nDim s + 1;
                 GridVel2 = SquaredNorm (nDim s) GridVel;
                 B1 = add_entry B0 row 0 (0.5 * (Gamma s - 1) * GridVel2 * ProjGridVel);
                 B2 = add_to_row_loop (nDim s) row (\<lambda>jDim. - (Gamma s - 1) * GridVel jDim * ProjGridVel) B1;
                 B3 = add_entry B2 row (nDim s + 1) ((Gamma s - 1) * ProjGridVel);
                 Coord_i = nodes_GetCoord geo iPoint;
                 Coord_j = nodes_GetCoord geo Point_Normal;
                 dist_ij = Distance (nDim s) Coord_i Coord_j;
                 theta2 = 1;
                 factor = total_viscosity * Area / (Density_i * dist_ij)
             in if nDim s = 2 then
                  (let thetax = theta2 + UnitNormal 0 * UnitNormal 0 / 3;
                       thetay = theta2 + UnitNormal 1 * UnitNormal 1 / 3;
                       etaz = UnitNormal 0 * UnitNormal 1 / 3;
                       pix = GridVel 0 * thetax + GridVel 1 * etaz;
                       piy = GridVel 0 * etaz + GridVel 1 * thetay;
                       B4 = add_entry B3 row 0 (factor * (- pix * GridVel 0 + piy * GridVel 1));
                       B5 = add_entry B4 row 1 (factor * pix);
                       B6 = add_entry B5 row 2 (factor * piy)
                   in (Some B6, Res_Conv1, Res_Visc1))
                else
                  (let thetax = theta2 + UnitNormal 0 * UnitNormal 0 / 3;
                       thetay = theta2 + UnitNormal 1 * UnitNormal 1 / 3;
                       thetaz = theta2 + UnitNormal 2 * UnitNormal 2 / 3;
                       etaz = UnitNormal 0 * UnitNormal 1 / 3;
                       etax = UnitNormal 1 * UnitNormal 2 / 3;
                       etay = UnitNormal 0 * UnitNormal 2 / 3;
                       pix = GridVel 0 * thetax + GridVel 1 * etaz + GridVel 2 * etay;
                       piy = GridVel 0 * etaz + GridVel 1 * thetay + GridVel 2 * etax;
                       piz = GridVel 0 * etay + GridVel 1 * etax + GridVel 2 * thetaz;
                       B4 = add_entry B3 row 0
                              (factor * (- pix * GridVel 0 + piy * GridVel 1 + piz * GridVel 2));
                       B5 = add_entry B4 row 1 (factor * pix);
                       B6 = add_entry B5 row 2 (factor * piy);
                       B7 = add_entry B6 row 3 (factor * piz)
                   in (Some B7, Res_Conv1, Res_Visc1))))"

text \<open>
  The body of the vertex loop of \<open>CNSSolver::BC_HeatFlux_Wall_Generic\<close>, in two parts.
  The variables that live across iterations are the loop state: \<open>Wall_HeatFlux\<close>, the
  scratch block \<open>Jacobian_i\<close> and the solver. Every write to \<open>Jacobian_i\<close> stands under
  a condition that implies its allocation; \<open>map_option\<close> carries the write.

  The second part, from \<open>LinSysRes(iPoint, nDim + 1) += Res_Conv - Res_Visc\<close> to the end
  of the body: \<open>s1\<close> is the solver after the velocity has been imposed, and \<open>dyn\<close> holds
  \<open>Jacobian_i\<close>, \<open>Res_Conv\<close> and \<open>Res_Visc\<close> as the moving-wall part left them.
\<close>

definition BC_HeatFlux_Wall_Generic_finish ::
  "config \<Rightarrow> BC_KIND \<Rightarrow> su2double \<Rightarrow> su2double \<Rightarrow> nat \<Rightarrow> su2double \<Rightarrow> solver
     \<Rightarrow> mat option \<times> su2double \<times> su2double \<Rightarrow> mat option \<times> solver" where
  "BC_HeatFlux_Wall_Generic_finish cfg kind_boundary Transfer_Coefficient Tinfinity iPoint Area s1 dyn =
     (case dyn of (Jacobian_i2, Res_Conv2, Res_Visc2) \<Rightarrow>
      let implicit = (GetKind_TimeIntScheme cfg = EULER_IMPLICIT);
          s2 = add_residual s1 iPoint (nDim s1 + 1) (Res_Conv2 - Res_Visc2)
      in if \<not> implicit then (Jacobian_i2, s2) else
      let Jacobian_i3 =
            (if kind_boundary = HEAT_TRANSFER then
               map_option (\<lambda>B.
                 let B0 = (if \<not> dynamic_grid s1 then zero_row (nVar s1) (nDim s1 + 1) B else B);
                     oneOnRho = 1 / Density s1 iPoint;
                     oneOnCv = (Gamma s1 - 1) / GetGas_ConstantND cfg;
                     Vel2 = SquaredNorm (nDim s1) (Velocity s1 iPoint);
                     dTdrho = oneOnRho * (- Tinfinity + oneOnCv * 0.5 * Vel2);
                     dTdrhoe = oneOnCv * oneOnRho;
                     B1 = add_entry B0 (nDim s1 + 1) 0 (Transfer_Coefficient * dTdrho * Area);
                     B2 = add_to_row_loop (nDim s1) (nDim s1 + 1)
                            (\<lambda>iDim. - (Transfer_Coefficient * dTdrhoe * Velocity s1 iPoint iDim * Area)) B1
                 in add_entry B2 (nDim s1 + 1) (nDim s1 + 1) (Transfer_Coefficient * dTdrhoe * Area))
                 Jacobian_i2
             else Jacobian_i2);
          s3 = (if dynamic_grid s1 \<or> kind_boundary = HEAT_TRANSFER then
                  (case Jacobian_i3 of
                     Some B \<Rightarrow> s2\<lparr>Jacobian := AddBlock2Diag (nVar s1) (Jacobian s2) iPoint B\<rparr>
                   | None \<Rightarrow> s2)
                else s2);
          s4 = s3\<lparr>Jacobian := delete_momentum_rows (nDim s1) (nVar s1) iPoint (Jacobian s3)\<rparr>
      in (Jacobian_i3, s4))"

text \<open>
  The first part, from the normal of the vertex to the moving-wall contribution: it
  yields \<open>Jacobian_i\<close>, \<open>Res_Conv\<close> and \<open>Res_Visc\<close>.
\<close>

definition BC_HeatFlux_Wall_Generic_moving_wall ::
  "numerics \<Rightarrow> geometry \<Rightarrow> config \<Rightarrow> nat \<Rightarrow> nat \<Rightarrow> solver \<Rightarrow> su2double \<Rightarrow> mat option
     \<Rightarrow> mat option \<times> su2double \<times> su2double" where
  "BC_HeatFlux_Wall_Generic_moving_wall X geo cfg val_marker iVertex s Wall_HeatFlux Jacobian_i0 =
     (let implicit = (GetKind_TimeIntScheme cfg = EULER_IMPLICIT);
          iPoint = vertex_GetNode geo val_marker iVertex;
          Normal = vertex_GetNormal geo val_marker iVertex;
          Area = Norm (nDim s) Normal;
          UnitNormal = (\<lambda>iDim. if iDim < nDim s then - Normal iDim / Area else 0);
          Res_Conv = 0;
          Res_Visc = Wall_HeatFlux * Area;
          s1 = impose_wall_velocity geo s iPoint
      in if dynamic_grid s then
           (let Jacobian_i1 = (if implicit then map_option (zero_row (nVar s) (nDim s + 1)) Jacobian_i0
                               else Jacobian_i0);
                Point_Normal = vertex_GetNormal_Neighbor geo val_marker iVertex
            in AddDynamicGridResidualContribution X s1 iPoint Point_Normal geo UnitNormal Area
                 (nodes_GetGridVel geo iPoint) Jacobian_i1 Res_Conv Res_Visc)
         else (Jacobian_i0, Res_Conv, Res_Visc))"

text \<open>The whole body: the wall heat flux of the vertex, then the two parts.\<close>

definition BC_HeatFlux_Wall_Generic_vertex ::
  "numerics \<Rightarrow> geometry \<Rightarrow> config \<Rightarrow> nat \<Rightarrow> BC_KIND \<Rightarrow> su2double \<Rightarrow> su2double \<Rightarrow> nat
     \<Rightarrow> su2double \<times> mat option \<times> solver \<Rightarrow> su2double \<times> mat option \<times> solver" where
  "BC_HeatFlux_Wall_Generic_vertex X geo cfg val_marker kind_boundary Transfer_Coefficient Tinfinity
       iVertex st =
     (case st of (Wall_HeatFlux0, Jacobian_i0, s) \<Rightarrow>
      let iPoint = vertex_GetNode geo val_marker iVertex
      in if \<not> nodes_GetDomain geo iPoint then st else
      let Wall_HeatFlux =
            (if GetMarker_All_PyCustom cfg val_marker then GetCustomBoundaryHeatFlux geo val_marker iVertex
             else if kind_boundary = HEAT_TRANSFER then
               (let Twall = Temperature s iPoint in Transfer_Coefficient * (Tinfinity - Twall))
             else Wall_HeatFlux0);
          Area = Norm (nDim s) (vertex_GetNormal geo val_marker iVertex);
          s1 = impose_wall_velocity geo s iPoint;
          dyn = BC_HeatFlux_Wall_Generic_moving_wall X geo cfg val_marker iVertex s Wall_HeatFlux Jacobian_i0
      in (Wall_HeatFlux,
          BC_HeatFlux_Wall_Generic_finish cfg kind_boundary Transfer_Coefficient Tinfinity iPoint Area s1 dyn))"

text \<open>
  \<open>CNSSolver::BC_HeatFlux_Wall_Generic\<close>: the values read from the configuration, the
  allocation of the zero-initialised scratch block, and the loop over the vertices of
  the marker in index order.
\<close>

definition BC_HeatFlux_Wall_Generic ::
  "numerics \<Rightarrow> geometry \<Rightarrow> config \<Rightarrow> nat \<Rightarrow> BC_KIND \<Rightarrow> solver \<Rightarrow> solver" where
  "BC_HeatFlux_Wall_Generic X geo cfg val_marker kind_boundary s =
     (let implicit = (GetKind_TimeIntScheme cfg = EULER_IMPLICIT);
          Marker_Tag = GetMarker_All_TagBound cfg val_marker;
          Wall_HeatFlux = (if kind_boundary = HEAT_FLUX
                           then GetWall_HeatFlux cfg Marker_Tag / GetHeat_Flux_Ref cfg else 0);
          Transfer_Coefficient =
            (if kind_boundary = HEAT_TRANSFER
             then GetWall_HeatTransfer_Coefficient cfg Marker_Tag * GetTemperature_Ref cfg /
                  GetHeat_Flux_Ref cfg
             else 0);
          Tinfinity =
            (if kind_boundary = HEAT_TRANSFER
             then GetWall_HeatTransfer_Temperature cfg Marker_Tag / GetTemperature_Ref cfg else 0);
          Jacobian_i = (if (dynamic_grid s \<or> kind_boundary = HEAT_TRANSFER) \<and> implicit
                        then Some (\<lambda>_ _. 0) else None)
      in snd (snd (fold (BC_HeatFlux_Wall_Generic_vertex X geo cfg val_marker kind_boundary
                           Transfer_Coefficient Tinfinity)
                        [0..<nVertex geo val_marker] (Wall_HeatFlux, Jacobian_i, s))))"

definition BC_HeatFlux_Wall :: "numerics \<Rightarrow> geometry \<Rightarrow> config \<Rightarrow> nat \<Rightarrow> solver \<Rightarrow> solver" where
  "BC_HeatFlux_Wall X geo cfg val_marker s = BC_HeatFlux_Wall_Generic X geo cfg val_marker HEAT_FLUX s"

definition BC_HeatTransfer_Wall :: "numerics \<Rightarrow> geometry \<Rightarrow> config \<Rightarrow> nat \<Rightarrow> solver \<Rightarrow> solver" where
  "BC_HeatTransfer_Wall X geo cfg val_marker s =
     BC_HeatFlux_Wall_Generic X geo cfg val_marker HEAT_TRANSFER s"

section \<open>Compressible solver: isothermal and conjugate-heat walls\<close>

text \<open>A loop whose body can abort: the first error ends it.\<close>

primrec fold_err :: "('a \<Rightarrow> 'b \<Rightarrow> su2_error + 'b) \<Rightarrow> 'a list \<Rightarrow> 'b \<Rightarrow> su2_error + 'b" where
  "fold_err f [] st = Inr st"
| "fold_err f (x # xs) st = (case f x st of Inl e \<Rightarrow> Inl e | Inr st' \<Rightarrow> fold_err f xs st')"

text \<open>
  The wall temperature of one vertex in \<open>CNSSolver::BC_Isothermal_Wall_Generic\<close>
  (the statement \<open>if (cht_mode) ... else if (PyCustom) ...\<close>). The call of
  \<open>GetCHTWallTemperature\<close> passes \<open>dist_ij\<close> fourth and \<open>thermal_conductivity\<close> fifth,
  as the source does.
\<close>

definition BC_Isothermal_Wall_Twall ::
  "geometry \<Rightarrow> config \<Rightarrow> solver \<Rightarrow> nat \<Rightarrow> bool \<Rightarrow> nat \<Rightarrow> su2double \<Rightarrow> su2double \<Rightarrow> su2double
     \<Rightarrow> su2double \<Rightarrow> su2_error + su2double" where
  "BC_Isothermal_Wall_Twall geo cfg s val_marker cht_mode iVertex dist_ij thermal_conductivity There Twall0 =
     (if cht_mode then
        GetCHTWallTemperature s cfg val_marker iVertex dist_ij thermal_conductivity There
          (GetTemperature_Ref cfg)
      else if GetMarker_All_PyCustom cfg val_marker then
        Inr (GetCustomBoundaryTemperature geo val_marker iVertex)
      else Inr Twall0)"

text \<open>\<open>B[row][col] = val\<close> on a dense block.\<close>

definition set_entry :: "mat \<Rightarrow> nat \<Rightarrow> nat \<Rightarrow> su2double \<Rightarrow> mat" where
  "set_entry B row col val = B(row := (B row)(col := val))"

text \<open>\<open>for (jDim = 0; jDim < nDim; jDim++) B[row][jDim + 1] = 0.0;\<close>\<close>

primrec zero_velocity_columns :: "nat \<Rightarrow> nat \<Rightarrow> mat \<Rightarrow> mat" where
  "zero_velocity_columns 0 row B = B"
| "zero_velocity_columns (Suc jDim) row B = set_entry (zero_velocity_columns jDim row B) row (jDim + 1) 0"

text \<open>
  The body of the vertex loop of \<open>CNSSolver::BC_Isothermal_Wall_Generic\<close>. The loop
  state is \<open>Twall\<close>, the scratch block \<open>Jacobian_i\<close> and the solver. The velocity
  components are the entries \<open>1 .. nDim\<close> of the primitive vector, read here through
  \<open>Velocity\<close>.
\<close>

definition BC_Isothermal_Wall_Generic_vertex ::
  "numerics \<Rightarrow> geometry \<Rightarrow> config \<Rightarrow> nat \<Rightarrow> bool \<Rightarrow> nat
     \<Rightarrow> su2double \<times> mat option \<times> solver \<Rightarrow> su2_error + su2double \<times> mat option \<times> solver" where
  "BC_Isothermal_Wall_Generic_vertex X geo cfg val_marker cht_mode iVertex st =
     (case st of (Twall0, Jacobian_i0, s) \<Rightarrow>
      let implicit = (GetKind_TimeIntScheme cfg = EULER_IMPLICIT);
          Prandtl_Lam = GetPrandtl_Lam cfg;
          Prandtl_Turb = GetPrandtl_Turb cfg;
          Gas_Constant = GetGas_ConstantND cfg;
          Cp = (Gamma s / (Gamma s - 1)) * Gas_Constant;
          iPoint = vertex_GetNode geo val_marker iVertex
      in if \<not> nodes_GetDomain geo iPoint then Inr st else
      let Normal = vertex_GetNormal geo val_marker iVertex;
          Area = Norm (nDim s) Normal;
          UnitNormal = (\<lambda>iDim. if iDim < nDim s then - Normal iDim / Area else 0);
          Point_Normal = vertex_GetNormal_Neighbor geo val_marker iVertex;
          Coord_i = nodes_GetCoord geo iPoint;
          Coord_j = nodes_GetCoord geo Point_Normal;
          dist_ij = Distance (nDim s) Coord_i Coord_j;
          s1 = impose_wall_velocity geo s iPoint;
          laminar_viscosity = LaminarViscosity s iPoint;
          eddy_viscosity = EddyViscosity s iPoint;
          thermal_conductivity = Cp * (laminar_viscosity / Prandtl_Lam + eddy_viscosity / Prandtl_Turb);
          There = Temperature s Point_Normal
      in (case BC_Isothermal_Wall_Twall geo cfg s val_marker cht_mode iVertex dist_ij thermal_conductivity
                There Twall0 of
           Inl e \<Rightarrow> Inl e
         | Inr Twall \<Rightarrow>
     (let dTdn = - (There - Twall) / dist_ij;
          Res_Conv = 0;
          Res_Visc = thermal_conductivity * dTdn * Area;
          Jacobian_i1 =
            (if implicit then
               map_option (\<lambda>B.
                 let Density_i = Density s iPoint;
                     Vel2 = SquaredNorm (nDim s) (Velocity s iPoint);
                     dTdrho = 1 / Density_i * (- Twall + (Gamma s - 1) / Gas_Constant * (Vel2 / 2));
                     B1 = set_entry B (nDim s + 1) 0 (thermal_conductivity / dist_ij * dTdrho * Area);
                     B2 = zero_velocity_columns (nDim s) (nDim s + 1) B1
                 in set_entry B2 (nDim s + 1) (nDim s + 1)
                      (thermal_conductivity / dist_ij * (Gamma s - 1) / (Gas_Constant * Density_i) * Area))
                 Jacobian_i0
             else Jacobian_i0);
          dyn = (if dynamic_grid s then
                   AddDynamicGridResidualContribution X s iPoint Point_Normal geo UnitNormal Area
                     (nodes_GetGridVel geo iPoint) Jacobian_i1 Res_Conv Res_Visc
                 else (Jacobian_i1, Res_Conv, Res_Visc))
      in (case dyn of (Jacobian_i2, Res_Conv2, Res_Visc2) \<Rightarrow>
      let s2 = add_residual s1 iPoint (nDim s + 1) (Res_Conv2 - Res_Visc2)
      in if \<not> implicit then Inr (Twall, Jacobian_i2, s2) else
      let s3 = (case Jacobian_i2 of
                  Some B \<Rightarrow> s2\<lparr>Jacobian := AddBlock2Diag (nVar s) (Jacobian s2) iPoint B\<rparr>
                | None \<Rightarrow> s2);
          s4 = s3\<lparr>Jacobian := delete_momentum_rows (nDim s) (nVar s) iPoint (Jacobian s3)\<rparr>
      in Inr (Twall, Jacobian_i2, s4)))))"

definition BC_Isothermal_Wall_Generic ::
  "numerics \<Rightarrow> geometry \<Rightarrow> config \<Rightarrow> nat \<Rightarrow> bool \<Rightarrow> solver \<Rightarrow> su2_error + solver" where
  "BC_Isothermal_Wall_Generic X geo cfg val_marker cht_mode s =
     (let implicit = (GetKind_TimeIntScheme cfg = EULER_IMPLICIT);
          Temperature_Ref = GetTemperature_Ref cfg;
          Marker_Tag = GetMarker_All_TagBound cfg val_marker;
          Twall = (if \<not> cht_mode then GetIsothermal_Temperature cfg Marker_Tag / Temperature_Ref else 0);
          Jacobian_i = (if implicit then Some (\<lambda>_ _. 0) else None)
      in case fold_err (BC_Isothermal_Wall_Generic_vertex X geo cfg val_marker cht_mode)
                [0..<nVertex geo val_marker] (Twall, Jacobian_i, s) of
           Inl e \<Rightarrow> Inl e
         | Inr st \<Rightarrow> Inr (snd (snd st)))"

definition BC_Isothermal_Wall :: "numerics \<Rightarrow> geometry \<Rightarrow> config \<Rightarrow> nat \<Rightarrow> solver \<Rightarrow> su2_error + solver" where
  "BC_Isothermal_Wall X geo cfg val_marker s = BC_Isothermal_Wall_Generic X geo cfg val_marker False s"

definition BC_ConjugateHeat_Interface ::
  "numerics \<Rightarrow> geometry \<Rightarrow> config \<Rightarrow> nat \<Rightarrow> solver \<Rightarrow> su2_error + solver" where
  "BC_ConjugateHeat_Interface X geo cfg val_marker s = BC_Isothermal_Wall_Generic X geo cfg val_marker True s"

section \<open>Incompressible solver: wall kernels\<close>

text \<open>
  The body of the vertex loop of \<open>CIncNSSolver::BC_Wall_Generic\<close>; \<open>Wall_HeatFlux\<close> and
  \<open>Twall\<close> are the values read from the configuration before the loop.
\<close>

definition CInc_BC_Wall_Generic_vertex ::
  "geometry \<Rightarrow> config \<Rightarrow> nat \<Rightarrow> BC_KIND \<Rightarrow> su2double \<Rightarrow> su2double \<Rightarrow> nat \<Rightarrow> solver \<Rightarrow> solver" where
  "CInc_BC_Wall_Generic_vertex geo cfg val_marker kind_boundary Wall_HeatFlux Twall iVertex s =
     (let implicit = (GetKind_TimeIntScheme cfg = EULER_IMPLICIT);
          energy = GetEnergy_Equation cfg;
          streamwise_periodic = (GetKind_Streamwise_Periodic cfg \<noteq> NONE);
          streamwise_periodic_temperature = GetStreamwise_Periodic_Temperature cfg;
          iPoint = vertex_GetNode geo val_marker iVertex
      in if \<not> nodes_GetDomain geo iPoint then s else
      let Normal = vertex_GetNormal geo val_marker iVertex;
          Area = Norm (nDim s) Normal;
          s1 = impose_wall_velocity geo s iPoint;
          s2 = (if implicit
                then s1\<lparr>Jacobian := delete_momentum_rows (nDim s) (nVar s) iPoint (Jacobian s1)\<rparr>
                else s1)
      in if \<not> energy then s2
      else if kind_boundary = HEAT_FLUX then
        (let s3 = add_residual s2 iPoint (nDim s + 1) (- (Wall_HeatFlux * Area))
         in if streamwise_periodic \<and> streamwise_periodic_temperature then
              (let Cp = SpecificHeatCp s iPoint;
                   thermal_conductivity = ThermalConductivity s iPoint;
                   norm2_translation = SquaredNorm (nDim s) (GetPeriodic_Translation cfg 0);
                   scalar_factor = Streamwise_Periodic_IntegratedHeatFlow s * thermal_conductivity /
                                   (Streamwise_Periodic_MassFlow s * Cp * norm2_translation);
                   dot_product = DotProduct (nDim s) (GetPeriodic_Translation cfg 0) Normal
               in add_residual s3 iPoint (nDim s + 1) (scalar_factor * dot_product))
            else s3)
      else
        (let Point_Normal = vertex_GetNormal_Neighbor geo val_marker iVertex;
             Coord_i = nodes_GetCoord geo iPoint;
             Coord_j = nodes_GetCoord geo Point_Normal;
             Edge_Vector = Distance_vec (nDim s) Coord_j Coord_i;
             dist_ij_2 = SquaredNorm (nDim s) Edge_Vector;
             dist_ij = sqrt dist_ij_2;
             dTdn = - (Temperature s Point_Normal - Twall) / dist_ij;
             thermal_conductivity = ThermalConductivity s iPoint;
             s3 = add_residual s2 iPoint (nDim s + 1) (- (thermal_conductivity * dTdn * Area))
         in if implicit then
              (let proj_vector_ij = (if dist_ij_2 > 0
                                     then DotProduct (nDim s) Edge_Vector Normal / dist_ij_2 else 0)
               in s3\<lparr>Jacobian := AddVal2Diag (nVar s) (Jacobian s3) iPoint (nDim s + 1)
                                     (thermal_conductivity * proj_vector_ij)\<rparr>)
            else s3))"

text \<open>
  \<open>CIncNSSolver::BC_Wall_Generic\<close>: the kind of boundary and the wall-function
  treatment are checked before the loop.
\<close>

definition CInc_BC_Wall_Generic ::
  "geometry \<Rightarrow> config \<Rightarrow> nat \<Rightarrow> BC_KIND \<Rightarrow> solver \<Rightarrow> su2_error + solver" where
  "CInc_BC_Wall_Generic geo cfg val_marker kind_boundary s =
     (let Marker_Tag = GetMarker_All_TagBound cfg val_marker in
      if kind_boundary \<noteq> HEAT_FLUX \<and> kind_boundary \<noteq> ISOTHERMAL then
        Inl (SU2_MPI_Error ''Unknown type of boundary condition'')
      else
      let Wall_HeatFlux = (if kind_boundary = HEAT_FLUX
                           then GetWall_HeatFlux cfg Marker_Tag / GetHeat_Flux_Ref cfg else 0);
          Twall = (if kind_boundary = HEAT_FLUX then 0
                   else GetIsothermal_Temperature cfg Marker_Tag / GetTemperature_Ref cfg);
          Wall_Function = GetWallFunction_Treatment cfg Marker_Tag
      in if Wall_Function \<noteq> NO_WALL_FUNCTION then
           Inl (SU2_MPI_Error ''Wall function treament not implemented yet'')
         else
           Inr (fold (CInc_BC_Wall_Generic_vertex geo cfg val_marker kind_boundary Wall_HeatFlux Twall)
                     [0..<nVertex geo val_marker] s))"

definition CInc_BC_HeatFlux_Wall :: "geometry \<Rightarrow> config \<Rightarrow> nat \<Rightarrow> solver \<Rightarrow> su2_error + solver" where
  "CInc_BC_HeatFlux_Wall geo cfg val_marker s = CInc_BC_Wall_Generic geo cfg val_marker HEAT_FLUX s"

definition CInc_BC_Isothermal_Wall :: "geometry \<Rightarrow> config \<Rightarrow> nat \<Rightarrow> solver \<Rightarrow> su2_error + solver" where
  "CInc_BC_Isothermal_Wall geo cfg val_marker s = CInc_BC_Wall_Generic geo cfg val_marker ISOTHERMAL s"

text \<open>
  The wall temperature of one vertex in \<open>CIncNSSolver::BC_ConjugateHeat_Interface\<close>
  (from \<open>Tconjugate\<close> to the end of the \<open>if\<close> chain).
\<close>

definition CInc_CHT_Twall :: "geometry \<Rightarrow> config \<Rightarrow> solver \<Rightarrow> nat \<Rightarrow> nat \<Rightarrow> su2_error + su2double" where
  "CInc_CHT_Twall geo cfg s val_marker iVertex =
     (let Temperature_Ref = GetTemperature_Ref cfg;
          iPoint = vertex_GetNode geo val_marker iVertex;
          Tconjugate = ConjugateVar s val_marker iVertex 0 / Temperature_Ref
      in if GetKind_CHT_Coupling cfg = AVERAGED_TEMPERATURE_NEUMANN_HEATFLUX \<or>
            GetKind_CHT_Coupling cfg = AVERAGED_TEMPERATURE_ROBIN_HEATFLUX then
           (let Point_Normal = vertex_GetNormal_Neighbor geo val_marker iVertex;
                Coord_i = nodes_GetCoord geo iPoint;
                Coord_j = nodes_GetCoord geo Point_Normal;
                dist_ij = Distance (nDim s) Coord_j Coord_i;
                thermal_conductivity = ThermalConductivity s iPoint;
                There = Temperature s Point_Normal;
                HF_FactorHere = thermal_conductivity * GetViscosity_Ref cfg / dist_ij;
                HF_FactorConjugate = ConjugateVar s val_marker iVertex 2
            in Inr ((There * HF_FactorHere + Tconjugate * HF_FactorConjugate) /
                    (HF_FactorHere + HF_FactorConjugate)))
         else if GetKind_CHT_Coupling cfg = DIRECT_TEMPERATURE_NEUMANN_HEATFLUX \<or>
                 GetKind_CHT_Coupling cfg = DIRECT_TEMPERATURE_ROBIN_HEATFLUX then
           Inr Tconjugate
         else Inl (SU2_MPI_Error ''Unknown CHT coupling method.''))"

text \<open>The body of the vertex loop of \<open>CIncNSSolver::BC_ConjugateHeat_Interface\<close>.\<close>

definition CInc_BC_ConjugateHeat_Interface_vertex ::
  "geometry \<Rightarrow> config \<Rightarrow> nat \<Rightarrow> nat \<Rightarrow> solver \<Rightarrow> su2_error + solver" where
  "CInc_BC_ConjugateHeat_Interface_vertex geo cfg val_marker iVertex s =
     (let implicit = (GetKind_TimeIntScheme cfg = EULER_IMPLICIT);
          energy = GetEnergy_Equation cfg;
          iPoint = vertex_GetNode geo val_marker iVertex
      in if \<not> nodes_GetDomain geo iPoint then Inr s else
      let s1 = impose_wall_velocity geo s iPoint;
          s2 = (if implicit then
                  (let J1 = delete_momentum_rows (nDim s) (nVar s) iPoint (Jacobian s1);
                       J2 = (if energy then DeleteValsRowi J1 (iPoint * nVar s + nDim s + 1) else J1)
                   in s1\<lparr>Jacobian := J2\<rparr>)
                else s1)
      in if \<not> energy then Inr s2 else
        (case CInc_CHT_Twall geo cfg s val_marker iVertex of
           Inl e \<Rightarrow> Inl e
         | Inr Twall \<Rightarrow>
            (let s3 = s2\<lparr>LinSysRes := (LinSysRes s2)(iPoint := (LinSysRes s2 iPoint)(nDim s + 1 := 0))\<rparr>;
                 s4 = SetSolution_Old s3 iPoint (nDim s + 1) Twall
             in Inr (SetEnergy_ResTruncError_Zero s4 iPoint))))"

definition CInc_BC_ConjugateHeat_Interface ::
  "geometry \<Rightarrow> config \<Rightarrow> nat \<Rightarrow> solver \<Rightarrow> su2_error + solver" where
  "CInc_BC_ConjugateHeat_Interface geo cfg val_marker s =
     (let Marker_Tag = GetMarker_All_TagBound cfg val_marker;
          Wall_Function = GetWallFunction_Treatment cfg Marker_Tag
      in if Wall_Function \<noteq> NO_WALL_FUNCTION then
           Inl (SU2_MPI_Error ''Wall function treament not implemented yet'')
         else fold_err (CInc_BC_ConjugateHeat_Interface_vertex geo cfg val_marker)
                [0..<nVertex geo val_marker] s)"

section \<open>Wall-function solver\<close>

text \<open>
  \<open>CNSSolver::SetTau_Wall_WF\<close>. The constants of one vertex (the \<open>const\<close> locals set
  before the Newton loop) and the variables the loop changes. The diagnostic counters are
  \<open>unsigned long\<close>; the iteration counter never exceeds \<open>max_iter + 1\<close> and is a natural
  number. The loop writes the temperature of the point, so the solver is part of the loop
  state.
\<close>

record wf_locals =
  wf_iPoint :: nat
  wf_KindBC :: BC_KIND
  VelTangMod :: su2double
  WallDistMod :: su2double
  q_w :: su2double
  P_Wall :: su2double
  T_Normal :: su2double
  Lam_Visc_Normal :: su2double
  Conductivity_Wall :: su2double
  Lam_Visc_Wall :: su2double
  WallShearStress :: su2double
  wf_Gas_Constant :: su2double
  wf_Cp :: su2double
  Recovery :: su2double
  kappa :: su2double
  wf_B :: su2double
  relax :: su2double
  max_iter :: nat
  wf_EPS :: su2double

record wf_iter =
  U_Tau :: su2double
  Y_Plus :: su2double
  Eddy_Visc_Wall :: su2double
  T_Wall :: su2double
  Density_Wall :: su2double
  diff :: su2double
  counter :: nat
  notConvergedCounter :: "64 word"
  sol :: solver

text \<open>Modelled from the spec: \<open>nodes->SetTemperature\<close>, the setter of the temperature of a point.\<close>

definition SetTemperature :: "solver \<Rightarrow> nat \<Rightarrow> su2double \<Rightarrow> solver" where
  "SetTemperature s iPoint val = s\<lparr>Temperature := (Temperature s)(iPoint := val)\<rparr>"

text \<open>\<open>U_Plus\<close>, \<open>Gam\<close>, \<open>Beta\<close> and the Crocco-Busemann denominator at the start of an iteration.\<close>

definition wf_U_Plus :: "wf_locals \<Rightarrow> wf_iter \<Rightarrow> su2double" where
  "wf_U_Plus L it = VelTangMod L / U_Tau it"

definition wf_Gam :: "wf_locals \<Rightarrow> wf_iter \<Rightarrow> su2double" where
  "wf_Gam L it = Recovery L * U_Tau it * U_Tau it / (2 * wf_Cp L * T_Wall it)"

definition wf_Beta :: "wf_locals \<Rightarrow> wf_iter \<Rightarrow> su2double" where
  "wf_Beta L it = q_w L * Lam_Visc_Wall L / (Density_Wall it * T_Wall it * Conductivity_Wall L * U_Tau it)"

definition wf_denum :: "wf_locals \<Rightarrow> wf_iter \<Rightarrow> su2double" where
  "wf_denum L it = 1 + wf_Beta L it * wf_U_Plus L it - wf_Gam L it * wf_U_Plus L it * wf_U_Plus L it"

text \<open>The update of the wall temperature (the statement under \<open>!= ISOTHERMAL\<close>).\<close>

definition wf_update_T_Wall :: "wf_locals \<Rightarrow> wf_iter \<Rightarrow> wf_iter" where
  "wf_update_T_Wall L it =
     (if wf_KindBC L \<noteq> ISOTHERMAL then
        (let denum = wf_denum L it in
         if denum > wf_EPS L then
           it\<lparr>T_Wall := T_Normal L / denum,
              sol := SetTemperature (sol it) (wf_iPoint L) (T_Normal L / denum)\<rparr>
         else it\<lparr>sol := (sol it)\<lparr>cout := cout (sol it) @ [''Warning: T_Wall < 0 '']\<rparr>\<rparr>)
      else it)"

text \<open>The body of the \<open>while\<close> loop up to the Newton step.\<close>

definition Newton_update :: "wf_locals \<Rightarrow> wf_iter \<Rightarrow> wf_iter" where
  "Newton_update L it =
     (let U_Plus = wf_U_Plus L it;
          Gam = wf_Gam L it;
          Beta = wf_Beta L it;
          Q = sqrt (Beta * Beta + 4 * Gam);
          Phi = arcsin (- 1 * Beta / Q);
          it1 = wf_update_T_Wall L it;
          Density_Wall1 = P_Wall L / (wf_Gas_Constant L * T_Wall it1);
          Y_Plus_White = exp ((kappa L / sqrt Gam) * (arcsin ((2 * Gam * U_Plus - Beta) / Q) - Phi)) *
                         exp (- 1 * kappa L * wf_B L);
          kUp = kappa L * U_Plus;
          Y_Plus1 = U_Plus + Y_Plus_White -
                    (exp (- 1 * kappa L * wf_B L) * (1 + kUp + 0.5 * kUp * kUp + kUp * kUp * kUp / 6));
          dypw_dyp = 2 * Y_Plus_White * (kappa L * sqrt Gam / Q) *
                     sqrt (1 - (2 * Gam * U_Plus - Beta)\<^sup>2 / (Q * Q));
          Eddy_Visc_Wall1 = Lam_Visc_Wall L *
                     (1 + dypw_dyp -
                      kappa L * exp (- 1 * kappa L * wf_B L) *
                        (1 + kappa L * U_Plus + kappa L * kappa L * U_Plus * U_Plus / 2) -
                      Lam_Visc_Normal L / Lam_Visc_Wall L);
          Eddy_Visc_Wall2 = max (1 / 10 ^ 6) Eddy_Visc_Wall1;
          diff1 = (Density_Wall1 * U_Tau it * WallDistMod L / Lam_Visc_Wall L) - Y_Plus1;
          grad_diff = Density_Wall1 * WallDistMod L / Lam_Visc_Wall L +
                      VelTangMod L / (U_Tau it * U_Tau it) +
                      kappa L / (U_Tau it * sqrt Gam) * arcsin (U_Plus * sqrt Gam) * Y_Plus_White -
                      exp (- 1 * wf_B L * kappa L) *
                        (0.5 * (VelTangMod L * kappa L / U_Tau it) ^ 3 +
                         (VelTangMod L * kappa L / U_Tau it)\<^sup>2 +
                         VelTangMod L * kappa L / U_Tau it) / U_Tau it;
          U_Tau1 = U_Tau it - relax L * (diff1 / grad_diff)
      in it1\<lparr>U_Tau := U_Tau1, Y_Plus := Y_Plus1, Eddy_Visc_Wall := Eddy_Visc_Wall2,
             Density_Wall := Density_Wall1, diff := diff1\<rparr>)"

text \<open>One pass through the loop body: the update, then \<open>counter++\<close>.\<close>

definition Newton_body :: "wf_locals \<Rightarrow> wf_iter \<Rightarrow> wf_iter" where
  "Newton_body L it = (Newton_update L it)\<lparr>counter := counter it + 1\<rparr>"

text \<open>The safe values stored when the iteration count exceeds \<open>max_iter\<close>.\<close>

definition Newton_fallback :: "wf_iter \<Rightarrow> wf_iter" where
  "Newton_fallback it =
     it\<lparr>notConvergedCounter := notConvergedCounter it + 1,
        Y_Plus := 30, Eddy_Visc_Wall := 1, U_Tau := 1\<rparr>"

text \<open>\<open>while (fabs(diff) > tol) { ...; counter++; if (counter > max_iter) { ...; break; } }\<close>\<close>

function Newton_loop :: "wf_locals \<Rightarrow> wf_iter \<Rightarrow> wf_iter" where
  "Newton_loop L it =
     (if \<bar>diff it\<bar> > 1 / 10 ^ 12 then
        (if counter (Newton_body L it) > max_iter L then Newton_fallback (Newton_body L it)
         else Newton_loop L (Newton_body L it))
      else it)"
  by pat_completeness auto
termination
  by (relation "measure (\<lambda>(L, it). max_iter L + 1 - counter it)") (auto simp: Newton_body_def)

declare Newton_loop.simps [simp del]






text \<open>
  The locals of one vertex: the state of the wall point and of its normal neighbour,
  the wall-parallel velocity, the wall distance, the heat flux and the wall shear stress
  from the stress tensor on the surface.
\<close>

definition SetTau_Wall_WF_locals ::
  "numerics \<Rightarrow> geometry \<Rightarrow> config \<Rightarrow> solver \<Rightarrow> nat \<Rightarrow> nat \<Rightarrow> wf_locals" where
  "SetTau_Wall_WF_locals X geo cfg s iMarker iVertex =
     (let Gas_Constant = GetGas_ConstantND cfg;
          Cp = (Gamma s / (Gamma s - 1)) * Gas_Constant;
          Marker_Tag = GetMarker_All_TagBound cfg iMarker;
          iPoint = vertex_GetNode geo iMarker iVertex;
          Point_Normal = vertex_GetNormal_Neighbor geo iMarker iVertex;
          Coord = nodes_GetCoord geo iPoint;
          Coord_Normal = nodes_GetCoord geo Point_Normal;
          Normal = vertex_GetNormal geo iMarker iVertex;
          Area = Norm (nDim s) Normal;
          UnitNormal = (\<lambda>iDim. if iDim < nDim s then - Normal iDim / Area else 0);
          Vel = (\<lambda>iDim. if iDim < nDim s then Velocity s Point_Normal iDim else 0);
          VelNormal = DotProduct (MAXNDIM X) Vel UnitNormal;
          VelTang = (\<lambda>iDim. if iDim < nDim s then Vel iDim - VelNormal * UnitNormal iDim else 0);
          WallDist = Distance_vec (nDim s) Coord Coord_Normal;
          tau = ComputeStressTensor X (nDim s) (\<lambda>i. Gradient_Primitive s iPoint (i + 1))
                  (LaminarViscosity s iPoint);
          TauTangent = TangentProjection X (nDim s) tau UnitNormal
      in \<lparr>wf_iPoint = iPoint,
          wf_KindBC = GetMarker_All_KindBC cfg iMarker,
          VelTangMod = Norm (MAXNDIM X) VelTang,
          WallDistMod = Norm (MAXNDIM X) WallDist,
          q_w = (if GetMarker_All_KindBC cfg iMarker = HEAT_FLUX
                 then GetWall_HeatFlux cfg Marker_Tag / GetHeat_Flux_Ref cfg else 0),
          P_Wall = Pressure s Point_Normal,
          T_Normal = Temperature s Point_Normal,
          Lam_Visc_Normal = LaminarViscosity s Point_Normal,
          Conductivity_Wall = ThermalConductivity s iPoint,
          Lam_Visc_Wall = LaminarViscosity s iPoint,
          WallShearStress = Norm (MAXNDIM X) TauTangent,
          wf_Gas_Constant = Gas_Constant,
          wf_Cp = Cp,
          Recovery = GetPrandtl_Lam cfg powr (1 / 3),
          kappa = GetwallModel_Kappa cfg,
          wf_B = GetwallModel_B cfg,
          relax = GetwallModel_RelFac cfg,
          max_iter = GetwallModel_MaxIter cfg,
          wf_EPS = EPS X\<rparr>)"

text \<open>The loop variables before the first iteration.\<close>

definition SetTau_Wall_WF_init :: "wf_locals \<Rightarrow> config \<Rightarrow> solver \<Rightarrow> 64 word \<Rightarrow> wf_iter" where
  "SetTau_Wall_WF_init L cfg s nc =
     (let T_Wall0 = Temperature s (wf_iPoint L);
          Density_Wall0 = P_Wall L / (wf_Gas_Constant L * T_Wall0)
      in \<lparr>U_Tau = max (1 / 10 ^ 6) (sqrt (WallShearStress L / Density_Wall0)),
          Y_Plus = 0.99 * GetwallModel_MinYPlus cfg,
          Eddy_Visc_Wall = EddyViscosity s (wf_iPoint L),
          T_Wall = T_Wall0,
          Density_Wall = Density_Wall0,
          diff = 1,
          counter = 0,
          notConvergedCounter = nc,
          sol = s\<rparr>)"

definition Y_Plus_Start :: "wf_locals \<Rightarrow> wf_iter \<Rightarrow> su2double" where
  "Y_Plus_Start L it = Density_Wall it * U_Tau it * WallDistMod L / Lam_Visc_Wall L"

text \<open>
  The body of the vertex loop. The loop state is \<open>notConvergedCounter\<close>,
  \<open>smallYPlusCounter\<close> and the solver.
\<close>

definition SetTau_Wall_WF_vertex ::
  "numerics \<Rightarrow> geometry \<Rightarrow> config \<Rightarrow> nat \<Rightarrow> nat \<Rightarrow> 64 word \<times> 64 word \<times> solver
     \<Rightarrow> 64 word \<times> 64 word \<times> solver" where
  "SetTau_Wall_WF_vertex X geo cfg iMarker iVertex st =
     (case st of (nc, smallYPlusCounter, s) \<Rightarrow>
      let iPoint = vertex_GetNode geo iMarker iVertex
      in if \<not> nodes_GetDomain geo iPoint then st else
      let L = SetTau_Wall_WF_locals X geo cfg s iMarker iVertex;
          it0 = SetTau_Wall_WF_init L cfg s nc
      in if Y_Plus_Start L it0 < GetwallModel_MinYPlus cfg then (nc, smallYPlusCounter + 1, s) else
      let fin = Newton_loop L it0;
          s1 = (sol fin)\<lparr>YPlus := (YPlus (sol fin))(iMarker := (YPlus (sol fin) iMarker)(iVertex := Y_Plus fin)),
                         EddyViscWall := (EddyViscWall (sol fin))
                            (iMarker := (EddyViscWall (sol fin) iMarker)(iVertex := Eddy_Visc_Wall fin)),
                         UTau := (UTau (sol fin))(iMarker := (UTau (sol fin) iMarker)(iVertex := U_Tau fin))\<rparr>;
          Tau_Wall_new = (1 / Density_Wall fin) * (Y_Plus fin * Lam_Visc_Wall L / WallDistMod L)\<^sup>2
      in (notConvergedCounter fin, smallYPlusCounter, s1\<lparr>Tau_Wall := (Tau_Wall s1)(iPoint := Tau_Wall_new)\<rparr>))"

text \<open>
  The loops over the markers and their vertices, up to the two local counters. The
  reduction of the counters over the ranks and the two warnings that follow are left out.
\<close>

definition SetTau_Wall_WF_marker ::
  "numerics \<Rightarrow> geometry \<Rightarrow> config \<Rightarrow> nat \<Rightarrow> 64 word \<times> 64 word \<times> solver \<Rightarrow> 64 word \<times> 64 word \<times> solver" where
  "SetTau_Wall_WF_marker X geo cfg iMarker st =
     (if \<not> GetViscous_Wall cfg iMarker then st
      else if GetWallFunction_Treatment cfg (GetMarker_All_TagBound cfg iMarker) \<noteq> STANDARD_FUNCTION then st
      else fold (SetTau_Wall_WF_vertex X geo cfg iMarker) [0..<nVertex geo iMarker] st)"

definition SetTau_Wall_WF :: "numerics \<Rightarrow> geometry \<Rightarrow> config \<Rightarrow> solver \<Rightarrow> 64 word \<times> 64 word \<times> solver" where
  "SetTau_Wall_WF X geo cfg s =
     fold (SetTau_Wall_WF_marker X geo cfg) [0..<GetnMarker_All cfg] (0, 0, s)"

section \<open>SST source term: the axisymmetric correction\<close>

text \<open>
  The members of \<open>CSourcePieceWise_TurbSST\<close> that \<open>ResidualAxisymmetric\<close> reads and the
  \<open>Residual\<close> it adds to. \<open>CSourcePieceWise_TurbSST_new\<close> has the same routine.
\<close>

record sst_numerics =
  Coord_i :: vec
  Density_i :: su2double
  V_i :: vec
  ScalarVar_i :: vec
  PrimVar_Grad_i :: mat
  ScalarVar_Grad_i :: mat
  Laminar_Viscosity_i :: su2double
  Eddy_Viscosity_i :: su2double
  F1_i :: su2double
  sigma_k_1 :: su2double
  sigma_k_2 :: su2double
  sigma_w_1 :: su2double
  sigma_w_2 :: su2double
  Volume :: su2double
  Residual :: vec

text \<open>The locals \<open>pk_axi\<close>, \<open>pw_axi\<close>, \<open>cdk_axi\<close> and \<open>cdw_axi\<close> of \<open>ResidualAxisymmetric\<close>.\<close>

definition pk_axi :: "su2double \<Rightarrow> sst_numerics \<Rightarrow> su2double" where
  "pk_axi zeta n =
     (let yinv = 1 / Coord_i n 1;
          rhov = Density_i n * V_i n 2;
          k = ScalarVar_i n 0
      in max 0 (2 / 3 * rhov * k *
                (2 / zeta * (yinv * V_i n 2 - PrimVar_Grad_i n 2 1 - PrimVar_Grad_i n 1 0) - 1)))"

definition pw_axi :: "su2double \<Rightarrow> su2double \<Rightarrow> sst_numerics \<Rightarrow> su2double" where
  "pw_axi alfa_blended zeta n = (let k = ScalarVar_i n 0 in alfa_blended * zeta / k * pk_axi zeta n)"

definition cdk_axi :: "sst_numerics \<Rightarrow> su2double" where
  "cdk_axi n =
     (let rhov = Density_i n * V_i n 2;
          k = ScalarVar_i n 0;
          sigma_k_i = F1_i n * sigma_k_1 n + (1 - F1_i n) * sigma_k_2 n
      in rhov * k - (Laminar_Viscosity_i n + sigma_k_i * Eddy_Viscosity_i n) * ScalarVar_Grad_i n 0 1)"

definition cdw_axi :: "sst_numerics \<Rightarrow> su2double" where
  "cdw_axi n =
     (let rhov = Density_i n * V_i n 2;
          w = ScalarVar_i n 1;
          sigma_w_i = F1_i n * sigma_w_1 n + (1 - F1_i n) * sigma_w_2 n
      in rhov * w - (Laminar_Viscosity_i n + sigma_w_i * Eddy_Viscosity_i n) * ScalarVar_Grad_i n 1 1)"

text \<open>\<open>CSourcePieceWise_TurbSST::ResidualAxisymmetric(alfa_blended, zeta)\<close>\<close>

definition ResidualAxisymmetric :: "numerics \<Rightarrow> su2double \<Rightarrow> su2double \<Rightarrow> sst_numerics \<Rightarrow> sst_numerics" where
  "ResidualAxisymmetric X alfa_blended zeta n =
     (if Coord_i n 1 < EPS X then n else
      let yinv = 1 / Coord_i n 1;
          R0 = (Residual n)(0 := Residual n 0 + yinv * Volume n * (pk_axi zeta n - cdk_axi n))
      in n\<lparr>Residual := R0(1 := R0 1 + yinv * Volume n * (pw_axi alfa_blended zeta n - cdw_axi n))\<rparr>)"

text \<open>
  The denominators of the divisions that one call of \<open>ResidualAxisymmetric\<close> evaluates,
  in the order of evaluation: \<open>1.0/Coord_i[1]\<close>, \<open>2.0/3.0\<close>, \<open>2.0/zeta\<close> and
  \<open>alfa_blended*zeta/k\<close>; none when the routine returns at the guard.
\<close>

definition ResidualAxisymmetric_divisors ::
  "numerics \<Rightarrow> su2double \<Rightarrow> su2double \<Rightarrow> sst_numerics \<Rightarrow> su2double list" where
  "ResidualAxisymmetric_divisors X alfa_blended zeta n =
     (if Coord_i n 1 < EPS X then [] else [Coord_i n 1, 3, zeta, ScalarVar_i n 0])"

section \<open>Example inputs\<close>

text \<open>
  A two-dimensional mesh with one wall marker of one vertex: the wall point \<open>0\<close> at the
  origin, its normal neighbour \<open>1\<close> at distance one, and a vertex normal of area one.
\<close>

definition ex_numerics :: numerics where
  "ex_numerics = \<lparr>EPS = 1 / 10 ^ 16, MAXNDIM = 3,
                   ComputeStressTensor = (\<lambda>_ _ _ _ _. 0),
                   TangentProjection = (\<lambda>_ _ _ i. if i = 0 then 1 else 0)\<rparr>"

definition ex_geometry :: geometry where
  "ex_geometry = \<lparr>nVertex = (\<lambda>_. 1),
                   vertex_GetNode = (\<lambda>_ _. 0),
                   vertex_GetNormal = (\<lambda>_ _ i. if i = 1 then - 1 else 0),
                   vertex_GetNormal_Neighbor = (\<lambda>_ _. 1),
                   nodes_GetDomain = (\<lambda>_. True),
                   nodes_GetCoord = (\<lambda>p i. if p = 1 \<and> i = 1 then 1 else 0),
                   nodes_GetGridVel = (\<lambda>_ _. 0),
                   GetCustomBoundaryHeatFlux = (\<lambda>_ _. 0),
                   GetCustomBoundaryTemperature = (\<lambda>_ _. 0)\<rparr>"

definition ex_config :: config where
  "ex_config = \<lparr>GetKind_TimeIntScheme = EULER_IMPLICIT,
                 GetEnergy_Equation = True,
                 GetKind_CHT_Coupling = AVERAGED_TEMPERATURE_NEUMANN_HEATFLUX,
                 GetTemperature_Ref = 1,
                 GetViscosity_Ref = 1,
                 GetHeat_Flux_Ref = 1,
                 GetGas_ConstantND = 1,
                 GetPrandtl_Lam = 1,
                 GetPrandtl_Turb = 1,
                 GetMarker_All_TagBound = (\<lambda>_. ''wall''),
                 GetMarker_All_PyCustom = (\<lambda>_. False),
                 GetMarker_All_KindBC = (\<lambda>_. ISOTHERMAL),
                 GetViscous_Wall = (\<lambda>_. True),
                 GetnMarker_All = 1,
                 GetWall_HeatFlux = (\<lambda>_. 0),
                 GetIsothermal_Temperature = (\<lambda>_. 3),
                 GetWall_HeatTransfer_Coefficient = (\<lambda>_. 0),
                 GetWall_HeatTransfer_Temperature = (\<lambda>_. 2),
                 GetWallFunction_Treatment = (\<lambda>_. NO_WALL_FUNCTION),
                 GetwallModel_MaxIter = 5,
                 GetwallModel_RelFac = 1 / 2,
                 GetwallModel_Kappa = 0,
                 GetwallModel_B = 5,
                 GetwallModel_MinYPlus = 5,
                 GetKind_Streamwise_Periodic = NONE,
                 GetStreamwise_Periodic_Temperature = False,
                 GetPeriodic_Translation = (\<lambda>_ _. 0)\<rparr>"

definition ex_solver :: solver where
  "ex_solver = \<lparr>nDim = 2, nVar = 4, Gamma = 2, dynamic_grid = False,
                 Temperature = (\<lambda>p. if p = 0 then 1 else 3),
                 Density = (\<lambda>_. 1),
                 Pressure = (\<lambda>_. 1),
                 LaminarViscosity = (\<lambda>_. 1),
                 EddyViscosity = (\<lambda>_. 0),
                 ThermalConductivity = (\<lambda>_. 2),
                 SpecificHeatCp = (\<lambda>_. 1),
                 Velocity = (\<lambda>_ _. 0),
                 Gradient_Primitive = (\<lambda>_ _ _. 0),
                 Velocity_Old = (\<lambda>_ _. 5),
                 Solution_Old = (\<lambda>_ _. 6),
                 Res_TruncError = (\<lambda>_ _. 7),
                 Tau_Wall = (\<lambda>_. 8),
                 LinSysRes = (\<lambda>_ _. 10),
                 Jacobian = (\<lambda>_ _. 9),
                 YPlus = (\<lambda>_ _. 0),
                 EddyViscWall = (\<lambda>_ _. 0),
                 UTau = (\<lambda>_ _. 0),
                 ConjugateVar = (\<lambda>_ _ k. if k = 2 then 1 else 0),
                 Streamwise_Periodic_IntegratedHeatFlow = 1,
                 Streamwise_Periodic_MassFlow = 1,
                 cout = []\<rparr>"

text \<open>
  The averaged wall temperature in the words of the specification: the flux-weighted
  average with the local conductance \<open>thermal_conductivity * Viscosity_Ref / dist_ij\<close>.
\<close>

definition spec_CHT_wall_temperature ::
  "su2double \<Rightarrow> su2double \<Rightarrow> su2double \<Rightarrow> su2double \<Rightarrow> su2double \<Rightarrow> su2double \<Rightarrow> su2double" where
  "spec_CHT_wall_temperature thermal_conductivity Viscosity_Ref dist_ij There Tconjugate HF_FactorConjugate =
     (let HF_FactorHere = thermal_conductivity * Viscosity_Ref / dist_ij
      in (There * HF_FactorHere + Tconjugate * HF_FactorConjugate) / (HF_FactorHere + HF_FactorConjugate))"

text \<open>A coupling method outside the enumeration, with the energy equation switched off.\<close>

definition ex_config_unknown :: config where
  "ex_config_unknown = ex_config\<lparr>GetEnergy_Equation := False, GetKind_CHT_Coupling := CHT_COUPLING_other 4\<rparr>"

text \<open>A point off the axis with zero turbulent kinetic energy.\<close>

definition ex_sst :: sst_numerics where
  "ex_sst = \<lparr>Coord_i = (\<lambda>_. 1), Density_i = 1, V_i = (\<lambda>_. 1), ScalarVar_i = (\<lambda>i. if i = 0 then 0 else 1),
             PrimVar_Grad_i = (\<lambda>_ _. 0), ScalarVar_Grad_i = (\<lambda>_ _. 0),
             Laminar_Viscosity_i = 1, Eddy_Viscosity_i = 1, F1_i = 1,
             sigma_k_1 = 1, sigma_k_2 = 1, sigma_w_1 = 1, sigma_w_2 = 1,
             Volume = 1, Residual = (\<lambda>_. 0)\<rparr>"

text \<open>Variations of the example for the wall-function solver.\<close>

definition ex_config_cap :: config where
  "ex_config_cap = ex_config\<lparr>GetwallModel_MaxIter := 0, GetwallModel_MinYPlus := 1 / 2\<rparr>"

definition ex_config_hf :: config where
  "ex_config_hf = ex_config\<lparr>GetMarker_All_KindBC := (\<lambda>_. HEAT_FLUX)\<rparr>"

definition ex_solver_fast :: solver where
  "ex_solver_fast = ex_solver\<lparr>Velocity := (\<lambda>p i. if p = 1 \<and> i = 0 then 2 else 0)\<rparr>"






text \<open>
  The relation between the loop states of the heat-transfer kernel with zero transfer
  coefficient and of the heat-flux kernel with zero heat flux, used to compare the two
  loops: the solvers agree, the heat flux carried by the second is zero unless the marker
  is customizable, and the scratch blocks agree on a moving grid, while on a static grid
  only the first kernel has one, zero outside its energy row.
\<close>

definition zero_coefficient_related ::
  "config \<Rightarrow> nat \<Rightarrow> su2double \<times> mat option \<times> solver \<Rightarrow> su2double \<times> mat option \<times> solver \<Rightarrow> bool" where
  "zero_coefficient_related cfg val_marker st1 st2 =
     (snd (snd st1) = snd (snd st2) \<and>
      (\<not> GetMarker_All_PyCustom cfg val_marker \<longrightarrow> fst st2 = 0) \<and>
      (if GetKind_TimeIntScheme cfg = EULER_IMPLICIT then
         (if dynamic_grid (snd (snd st1)) then fst (snd st1) = fst (snd st2)
          else fst (snd st2) = None \<and>
               (\<exists>B. fst (snd st1) = Some B \<and> (\<forall>r c. r \<noteq> nDim (snd (snd st1)) + 1 \<longrightarrow> B r c = 0)))
       else fst (snd st1) = None \<and> fst (snd st2) = None))"

section \<open>The loops, entry by entry\<close>

lemma zero_momentum_residual_apply:
  "zero_momentum_residual n p R q v = (if q = p \<and> 1 \<le> v \<and> v \<le> n then 0 else R q v)"
  by (induction n) (auto simp: Let_def)

lemma delete_momentum_rows_apply:
  "delete_momentum_rows n nV p J r c =
     (if \<exists>i. 1 \<le> i \<and> i \<le> n \<and> r = p * nV + i then (if c = r then 1 else 0) else J r c)"
proof (induction n)
  case 0
  then show ?case by simp
next
  case (Suc n)
  show ?case
  proof (cases "r = p * nV + (n + 1)")
    case True
    then show ?thesis by (auto simp: DeleteValsRowi_def)
  next
    case False
    have "(\<exists>i. 1 \<le> i \<and> i \<le> Suc n \<and> r = p * nV + i) = (\<exists>i. 1 \<le> i \<and> i \<le> n \<and> r = p * nV + i)"
      using False by (metis Suc_eq_plus1 le_SucE le_SucI)
    then show ?thesis using False Suc by (simp add: DeleteValsRowi_def)
  qed
qed

lemma zero_row_apply:
  "zero_row n row B r c = (if r = row \<and> c < n then 0 else B r c)"
  by (induction n) (auto simp: Let_def)

lemma add_to_row_loop_apply:
  "add_to_row_loop n row f B r c = (if r = row \<and> 1 \<le> c \<and> c \<le> n then B r c + f (c - 1) else B r c)"
  by (induction n) (auto simp: add_entry_def)

lemma zero_velocity_columns_apply:
  "zero_velocity_columns n row B r c = (if r = row \<and> 1 \<le> c \<and> c \<le> n then 0 else B r c)"
  by (induction n) (auto simp: set_entry_def)

lemmas ex_defs = ex_numerics_def ex_geometry_def ex_config_def ex_solver_def

lemmas toolbox_defs = Norm_def SquaredNorm_def Distance_def Distance_vec_def

section \<open>Wall-function solver: the vertices that are skipped\<close>

lemma ex_Y_Plus_Start:
  "Y_Plus_Start (SetTau_Wall_WF_locals ex_numerics ex_geometry ex_config ex_solver 0 0)
     (SetTau_Wall_WF_init (SetTau_Wall_WF_locals ex_numerics ex_geometry ex_config ex_solver 0 0)
        ex_config ex_solver nc) = 1"
  by (simp add: Y_Plus_Start_def SetTau_Wall_WF_init_def SetTau_Wall_WF_locals_def ex_defs Let_def
      toolbox_defs eval_nat_numeral)

text \<open>
  Claim C5. At a vertex of the domain whose initial estimate
  \<open>Y_Plus_Start = Density_Wall * U_Tau * WallDistMod / Lam_Visc_Wall\<close> is below the
  configured minimum, the vertex is skipped before the Newton loop: the solver, with
  the wall shear stress and the caches of y+, eddy viscosity and friction velocity, is
  returned as it was, the counter of unconverged vertices too, and the counter of small
  y+ is increased by exactly one.
\<close>

theorem small_yplus_vertex_skipped:
  assumes "nodes_GetDomain geo (vertex_GetNode geo iMarker iVertex)"
    and "Y_Plus_Start (SetTau_Wall_WF_locals X geo cfg s iMarker iVertex)
           (SetTau_Wall_WF_init (SetTau_Wall_WF_locals X geo cfg s iMarker iVertex) cfg s nc)
         < GetwallModel_MinYPlus cfg"
  shows "SetTau_Wall_WF_vertex X geo cfg iMarker iVertex (nc, smallYPlusCounter, s)
         = (nc, smallYPlusCounter + 1, s)"
  using assms by (simp add: SetTau_Wall_WF_vertex_def Let_def)

theorem small_yplus_vertex_skipped_witness:
  "nodes_GetDomain ex_geometry (vertex_GetNode ex_geometry 0 0) \<and>
   Y_Plus_Start (SetTau_Wall_WF_locals ex_numerics ex_geometry ex_config ex_solver 0 0)
     (SetTau_Wall_WF_init (SetTau_Wall_WF_locals ex_numerics ex_geometry ex_config ex_solver 0 0)
        ex_config ex_solver 0)
     < GetwallModel_MinYPlus ex_config \<and>
   SetTau_Wall_WF_vertex ex_numerics ex_geometry ex_config 0 0 (0, 0, ex_solver) = (0, 1, ex_solver)"
proof -
  have dom: "nodes_GetDomain ex_geometry (vertex_GetNode ex_geometry 0 0)"
    by (simp add: ex_geometry_def)
  have small: "Y_Plus_Start (SetTau_Wall_WF_locals ex_numerics ex_geometry ex_config ex_solver 0 0)
     (SetTau_Wall_WF_init (SetTau_Wall_WF_locals ex_numerics ex_geometry ex_config ex_solver 0 0)
        ex_config ex_solver 0)
     < GetwallModel_MinYPlus ex_config"
    by (simp add: ex_Y_Plus_Start) (simp add: ex_config_def)
  show ?thesis
    using dom small small_yplus_vertex_skipped [OF dom small, of 0] by simp
qed

section \<open>Wall-function solver: the Newton loop\<close>

lemma Newton_body_counter: "counter (Newton_body L it) = counter it + 1"
  by (simp add: Newton_body_def)

lemma Newton_body_notConverged: "notConvergedCounter (Newton_body L it) = notConvergedCounter it"
  by (simp add: Newton_body_def Newton_update_def wf_update_T_Wall_def Let_def)


lemma Newton_loop_exit:
  "counter it \<le> max_iter L \<Longrightarrow>
   (counter (Newton_loop L it) \<le> max_iter L \<and> \<bar>diff (Newton_loop L it)\<bar> \<le> 1 / 10 ^ 12 \<and>
    notConvergedCounter (Newton_loop L it) = notConvergedCounter it \<and>
    ((\<bar>diff it\<bar> \<le> 1 / 10 ^ 12 \<and> Newton_loop L it = it) \<or> (\<exists>itp. Newton_loop L it = Newton_body L itp)))
   \<or>
   (counter (Newton_loop L it) = max_iter L + 1 \<and>
    (\<exists>itp. Newton_loop L it = Newton_fallback (Newton_body L itp)) \<and>
    notConvergedCounter (Newton_loop L it) = notConvergedCounter it + 1)"
proof (induction L it rule: Newton_loop.induct)
  case (1 L it)
  show ?case
  proof (cases "\<bar>diff it\<bar> > 1 / 10 ^ 12")
    case False
    then show ?thesis using "1.prems" by (subst (1 2 3 4 5 6 7 8) Newton_loop.simps) simp
  next
    case big: True
    show ?thesis
    proof (cases "counter (Newton_body L it) > max_iter L")
      case True
      then have eq: "Newton_loop L it = Newton_fallback (Newton_body L it)"
        using big by (subst Newton_loop.simps) simp
      have "counter (Newton_body L it) = max_iter L + 1"
        using True "1.prems" by (simp add: Newton_body_counter)
      then show ?thesis
        unfolding eq by (auto simp: Newton_fallback_def Newton_body_notConverged)
    next
      case False
      then have eq: "Newton_loop L it = Newton_loop L (Newton_body L it)"
        using big by (subst Newton_loop.simps) simp
      have le: "counter (Newton_body L it) \<le> max_iter L" using False by simp
      from "1.IH" [OF big False le] show ?thesis
        unfolding eq by (auto simp: Newton_body_notConverged)
    qed
  qed
qed


text \<open>
  Claim C2. At a vertex of the domain that is not skipped and whose Newton loop ends with
  the iteration counter above the configured maximum, the kernel returns a state (there is
  no failure to propagate): the counter of unconverged vertices is increased by exactly one,
  the counter of small y+ is unchanged, and the values stored for the vertex are
  \<open>y+ = 30\<close>, eddy viscosity at the wall \<open>1\<close> and friction velocity \<open>1\<close>.
\<close>

theorem iteration_cap_fallback:
  assumes dom: "nodes_GetDomain geo (vertex_GetNode geo iMarker iVertex)"
    and L: "L = SetTau_Wall_WF_locals X geo cfg s iMarker iVertex"
    and active: "\<not> Y_Plus_Start L (SetTau_Wall_WF_init L cfg s nc) < GetwallModel_MinYPlus cfg"
    and cap: "counter (Newton_loop L (SetTau_Wall_WF_init L cfg s nc)) > max_iter L"
    and res: "SetTau_Wall_WF_vertex X geo cfg iMarker iVertex (nc, small, s) = (nc', small', s')"
  shows "nc' = nc + 1 \<and> small' = small \<and>
         YPlus s' iMarker iVertex = 30 \<and> EddyViscWall s' iMarker iVertex = 1 \<and>
         UTau s' iMarker iVertex = 1"
proof -
  let ?it0 = "SetTau_Wall_WF_init L cfg s nc"
  let ?fin = "Newton_loop L ?it0"
  have c0: "counter ?it0 \<le> max_iter L" and n0: "notConvergedCounter ?it0 = nc"
    by (simp_all add: SetTau_Wall_WF_init_def Let_def)
  from Newton_loop_exit [OF c0] cap
  obtain itp where fin: "?fin = Newton_fallback (Newton_body L itp)"
    and nc: "notConvergedCounter ?fin = notConvergedCounter ?it0 + 1"
    by auto
  have vals: "Y_Plus ?fin = 30" "Eddy_Visc_Wall ?fin = 1" "U_Tau ?fin = 1"
    unfolding fin by (simp_all add: Newton_fallback_def)
  from res dom active vals nc n0 show ?thesis
    unfolding L SetTau_Wall_WF_vertex_def
    by (auto simp: Let_def)
qed

lemma Newton_loop_max_iter_0:
  assumes "max_iter L = 0" "counter it = 0" "\<bar>diff it\<bar> > 1 / 10 ^ 12"
  shows "Newton_loop L it = Newton_fallback (Newton_body L it)"
  using assms by (subst Newton_loop.simps) (simp add: Newton_body_counter)

theorem iteration_cap_fallback_witness:
  "nodes_GetDomain ex_geometry (vertex_GetNode ex_geometry 0 0) \<and>
   \<not> Y_Plus_Start (SetTau_Wall_WF_locals ex_numerics ex_geometry ex_config_cap ex_solver 0 0)
       (SetTau_Wall_WF_init (SetTau_Wall_WF_locals ex_numerics ex_geometry ex_config_cap ex_solver 0 0)
          ex_config_cap ex_solver 0)
     < GetwallModel_MinYPlus ex_config_cap \<and>
   counter (Newton_loop (SetTau_Wall_WF_locals ex_numerics ex_geometry ex_config_cap ex_solver 0 0)
       (SetTau_Wall_WF_init (SetTau_Wall_WF_locals ex_numerics ex_geometry ex_config_cap ex_solver 0 0)
          ex_config_cap ex_solver 0))
     > max_iter (SetTau_Wall_WF_locals ex_numerics ex_geometry ex_config_cap ex_solver 0 0) \<and>
   fst (SetTau_Wall_WF_vertex ex_numerics ex_geometry ex_config_cap 0 0 (0, 0, ex_solver)) = 1 \<and>
   YPlus (snd (snd (SetTau_Wall_WF_vertex ex_numerics ex_geometry ex_config_cap 0 0 (0, 0, ex_solver)))) 0 0 = 30 \<and>
   EddyViscWall (snd (snd (SetTau_Wall_WF_vertex ex_numerics ex_geometry ex_config_cap 0 0 (0, 0, ex_solver)))) 0 0 = 1 \<and>
   UTau (snd (snd (SetTau_Wall_WF_vertex ex_numerics ex_geometry ex_config_cap 0 0 (0, 0, ex_solver)))) 0 0 = 1"
proof -
  let ?L = "SetTau_Wall_WF_locals ex_numerics ex_geometry ex_config_cap ex_solver 0 0"
  let ?it0 = "SetTau_Wall_WF_init ?L ex_config_cap ex_solver 0"
  let ?r = "SetTau_Wall_WF_vertex ex_numerics ex_geometry ex_config_cap 0 0 (0, 0, ex_solver)"
  have dom: "nodes_GetDomain ex_geometry (vertex_GetNode ex_geometry 0 0)"
    by (simp add: ex_geometry_def)
  have m: "max_iter ?L = 0"
    by (simp add: SetTau_Wall_WF_locals_def Let_def ex_config_cap_def ex_config_def)
  have active: "\<not> Y_Plus_Start ?L ?it0 < GetwallModel_MinYPlus ex_config_cap"
    by (simp add: Y_Plus_Start_def SetTau_Wall_WF_init_def SetTau_Wall_WF_locals_def ex_config_cap_def
        ex_defs Let_def toolbox_defs eval_nat_numeral)
  have "Newton_loop ?L ?it0 = Newton_fallback (Newton_body ?L ?it0)"
    by (rule Newton_loop_max_iter_0 [OF m]) (simp_all add: SetTau_Wall_WF_init_def Let_def)
  then have cap: "counter (Newton_loop ?L ?it0) > max_iter ?L"
    unfolding m by (simp add: Newton_fallback_def Newton_body_counter SetTau_Wall_WF_init_def Let_def)
  have res: "?r = (fst ?r, fst (snd ?r), snd (snd ?r))" by simp
  show ?thesis
    using dom active cap iteration_cap_fallback [OF dom refl active cap res] by simp
qed


section \<open>Wall-function solver: the wall temperature\<close>

text \<open>
  Claim C10. On a marker that is not isothermal, one pass through the loop body whose
  Crocco-Busemann denominator \<open>1 + Beta * U_Plus - Gam * U_Plus * U_Plus\<close> exceeds
  \<open>EPS\<close> sets \<open>T_Wall\<close> to \<open>T_Normal / denum\<close> and writes it to the temperature of the
  wall point through \<open>SetTemperature\<close>, a field of the solver that is none of the three
  caches; a pass whose denominator is at most \<open>EPS\<close> leaves \<open>T_Wall\<close> and the
  temperature as they were and adds only the warning to the output.
\<close>

theorem crocco_busemann_wall_temperature:
  assumes "wf_KindBC L \<noteq> ISOTHERMAL"
  shows "(wf_denum L it > wf_EPS L \<longrightarrow>
            T_Wall (Newton_body L it) = T_Normal L / wf_denum L it \<and>
            sol (Newton_body L it) = SetTemperature (sol it) (wf_iPoint L) (T_Normal L / wf_denum L it)) \<and>
         (wf_denum L it \<le> wf_EPS L \<longrightarrow>
            T_Wall (Newton_body L it) = T_Wall it \<and>
            sol (Newton_body L it) = (sol it)\<lparr>cout := cout (sol it) @ [''Warning: T_Wall < 0 '']\<rparr>)"
  using assms by (simp add: Newton_body_def Newton_update_def wf_update_T_Wall_def Let_def)

lemma ex_denum_slow:
  "wf_denum (SetTau_Wall_WF_locals ex_numerics ex_geometry ex_config_hf ex_solver 0 0)
     (SetTau_Wall_WF_init (SetTau_Wall_WF_locals ex_numerics ex_geometry ex_config_hf ex_solver 0 0)
        ex_config_hf ex_solver 0) = 1"
  by (simp add: wf_denum_def wf_Beta_def wf_Gam_def wf_U_Plus_def SetTau_Wall_WF_init_def
      SetTau_Wall_WF_locals_def ex_config_hf_def ex_defs Let_def toolbox_defs eval_nat_numeral)

lemma ex_denum_fast:
  "wf_denum (SetTau_Wall_WF_locals ex_numerics ex_geometry ex_config_hf ex_solver_fast 0 0)
     (SetTau_Wall_WF_init (SetTau_Wall_WF_locals ex_numerics ex_geometry ex_config_hf ex_solver_fast 0 0)
        ex_config_hf ex_solver_fast 0) = 0"
  by (simp add: wf_denum_def wf_Beta_def wf_Gam_def wf_U_Plus_def SetTau_Wall_WF_init_def
      SetTau_Wall_WF_locals_def ex_config_hf_def ex_solver_fast_def ex_defs Let_def toolbox_defs eval_nat_numeral)


theorem crocco_busemann_wall_temperature_witness:
  "wf_KindBC (SetTau_Wall_WF_locals ex_numerics ex_geometry ex_config_hf ex_solver 0 0) \<noteq> ISOTHERMAL \<and>
   wf_denum (SetTau_Wall_WF_locals ex_numerics ex_geometry ex_config_hf ex_solver 0 0)
     (SetTau_Wall_WF_init (SetTau_Wall_WF_locals ex_numerics ex_geometry ex_config_hf ex_solver 0 0)
        ex_config_hf ex_solver 0)
     > wf_EPS (SetTau_Wall_WF_locals ex_numerics ex_geometry ex_config_hf ex_solver 0 0) \<and>
   Temperature (sol (Newton_body (SetTau_Wall_WF_locals ex_numerics ex_geometry ex_config_hf ex_solver 0 0)
     (SetTau_Wall_WF_init (SetTau_Wall_WF_locals ex_numerics ex_geometry ex_config_hf ex_solver 0 0)
        ex_config_hf ex_solver 0))) 0 = 3 \<and>
   Temperature ex_solver 0 = 1 \<and>
   wf_KindBC (SetTau_Wall_WF_locals ex_numerics ex_geometry ex_config_hf ex_solver_fast 0 0) \<noteq> ISOTHERMAL \<and>
   wf_denum (SetTau_Wall_WF_locals ex_numerics ex_geometry ex_config_hf ex_solver_fast 0 0)
     (SetTau_Wall_WF_init (SetTau_Wall_WF_locals ex_numerics ex_geometry ex_config_hf ex_solver_fast 0 0)
        ex_config_hf ex_solver_fast 0)
     \<le> wf_EPS (SetTau_Wall_WF_locals ex_numerics ex_geometry ex_config_hf ex_solver_fast 0 0) \<and>
   sol (Newton_body (SetTau_Wall_WF_locals ex_numerics ex_geometry ex_config_hf ex_solver_fast 0 0)
     (SetTau_Wall_WF_init (SetTau_Wall_WF_locals ex_numerics ex_geometry ex_config_hf ex_solver_fast 0 0)
        ex_config_hf ex_solver_fast 0))
     = ex_solver_fast\<lparr>cout := [''Warning: T_Wall < 0 '']\<rparr>"
proof -
  let ?LA = "SetTau_Wall_WF_locals ex_numerics ex_geometry ex_config_hf ex_solver 0 0"
  let ?itA = "SetTau_Wall_WF_init ?LA ex_config_hf ex_solver 0"
  let ?LB = "SetTau_Wall_WF_locals ex_numerics ex_geometry ex_config_hf ex_solver_fast 0 0"
  let ?itB = "SetTau_Wall_WF_init ?LB ex_config_hf ex_solver_fast 0"
  have kA: "wf_KindBC ?LA \<noteq> ISOTHERMAL" and kB: "wf_KindBC ?LB \<noteq> ISOTHERMAL"
    by (simp_all add: SetTau_Wall_WF_locals_def Let_def ex_config_hf_def)
  have eA: "wf_EPS ?LA = 1 / 10 ^ 16" and eB: "wf_EPS ?LB = 1 / 10 ^ 16"
    by (simp_all add: SetTau_Wall_WF_locals_def Let_def ex_numerics_def)
  have tA: "T_Normal ?LA = 3" "wf_iPoint ?LA = 0"
    by (simp_all add: SetTau_Wall_WF_locals_def Let_def ex_defs)
  have sA: "sol ?itA = ex_solver" and sB: "sol ?itB = ex_solver_fast"
    by (simp_all add: SetTau_Wall_WF_init_def Let_def)
  have cB: "cout ex_solver_fast = []" by (simp add: ex_solver_fast_def ex_solver_def)
  have t0: "Temperature ex_solver 0 = 1" by (simp add: ex_solver_def)
  show ?thesis
    using crocco_busemann_wall_temperature [OF kA, of ?itA]
      crocco_busemann_wall_temperature [OF kB, of ?itB]
    by (simp add: kA kB eA eB tA sA sB cB t0 ex_denum_slow ex_denum_fast SetTemperature_def)
qed

section \<open>Wall-function solver: one pass on the example\<close>


section \<open>Wall-function solver: exit by convergence\<close>

























section \<open>Wall kernels: strong enforcement of the velocity\<close>

lemma impose_wall_velocity_LinSysRes:
  "LinSysRes (impose_wall_velocity geo s p) q v = (if q = p \<and> 1 \<le> v \<and> v \<le> nDim s then 0 else LinSysRes s q v)"
  by (auto simp: impose_wall_velocity_def SetVelocity_Old_def SetVel_ResTruncError_Zero_def Let_def
      zero_momentum_residual_apply)

lemma impose_wall_velocity_Velocity_Old:
  "\<not> dynamic_grid s \<Longrightarrow>
   Velocity_Old (impose_wall_velocity geo s p) p iDim = (if iDim < nDim s then 0 else Velocity_Old s p iDim)"
  by (simp add: impose_wall_velocity_def SetVelocity_Old_def SetVel_ResTruncError_Zero_def Let_def)

lemma impose_wall_velocity_frame:
  "Jacobian (impose_wall_velocity geo s p) = Jacobian s"
  "nDim (impose_wall_velocity geo s p) = nDim s"
  "nVar (impose_wall_velocity geo s p) = nVar s"
  "dynamic_grid (impose_wall_velocity geo s p) = dynamic_grid s"
  by (simp_all add: impose_wall_velocity_def SetVelocity_Old_def SetVel_ResTruncError_Zero_def Let_def)

lemma add_residual_LinSysRes:
  "LinSysRes (add_residual s p v x) q w = (if q = p \<and> w = v then LinSysRes s p v + x else LinSysRes s q w)"
  by (simp add: add_residual_def)

lemma add_residual_frame:
  "Jacobian (add_residual s p v x) = Jacobian s"
  "Velocity_Old (add_residual s p v x) = Velocity_Old s"
  "nDim (add_residual s p v x) = nDim s"
  "nVar (add_residual s p v x) = nVar s"
  "dynamic_grid (add_residual s p v x) = dynamic_grid s"
  by (simp_all add: add_residual_def)

lemma delete_momentum_rows_unit:
  "1 \<le> iVar \<Longrightarrow> iVar \<le> n \<Longrightarrow>
   delete_momentum_rows n nV p J (p * nV + iVar) = (\<lambda>c. if c = p * nV + iVar then 1 else 0)"
  by (rule ext) (auto simp: delete_momentum_rows_apply)

lemma CNS_heatflux_static_result:
  assumes "\<not> dynamic_grid s" "nodes_GetDomain geo (vertex_GetNode geo val_marker iVertex)"
  shows "\<exists>s2 J. snd (snd (BC_HeatFlux_Wall_Generic_vertex X geo cfg val_marker kind_boundary TC Tinf iVertex (q, Ji, s)))
           = (if GetKind_TimeIntScheme cfg \<noteq> EULER_IMPLICIT then s2
              else s2\<lparr>Jacobian := delete_momentum_rows (nDim s) (nVar s) (vertex_GetNode geo val_marker iVertex) J\<rparr>) \<and>
         LinSysRes s2 = LinSysRes (add_residual (impose_wall_velocity geo s (vertex_GetNode geo val_marker iVertex))
                          (vertex_GetNode geo val_marker iVertex) (nDim s + 1)
                          (0 - (if GetMarker_All_PyCustom cfg val_marker
                                then GetCustomBoundaryHeatFlux geo val_marker iVertex
                                else if kind_boundary = HEAT_TRANSFER
                                     then TC * (Tinf - Temperature s (vertex_GetNode geo val_marker iVertex))
                                     else q) *
                               Norm (nDim s) (vertex_GetNormal geo val_marker iVertex))) \<and>
         Velocity_Old s2 = Velocity_Old (impose_wall_velocity geo s (vertex_GetNode geo val_marker iVertex))"
  using assms
  unfolding BC_HeatFlux_Wall_Generic_vertex_def BC_HeatFlux_Wall_Generic_moving_wall_def
    BC_HeatFlux_Wall_Generic_finish_def Let_def
  by (auto simp: impose_wall_velocity_frame add_residual_frame split: option.splits)

text \<open>
  Claim C4. At a vertex of the domain on a static wall, after the body of the vertex loop
  of the compressible heat-flux / heat-transfer kernel and of the incompressible generic
  wall kernel, every momentum entry \<open>iVar = 1 .. nDim\<close> of the residual of the wall point
  is zero, the old velocity of the point is zero, and under the implicit scheme the row
  \<open>iPoint * nVar + iVar\<close> of the Jacobian is the unit row left by \<open>DeleteValsRowi\<close>:
  one on the diagonal, zero elsewhere.
\<close>

theorem strong_velocity_dirichlet:
  fixes s :: solver and geo val_marker iVertex X cfg kind_boundary Transfer_Coefficient Tinfinity
    Wall_HeatFlux Jacobian_i kind_boundary' Wall_HeatFlux' Twall
  defines "iPoint \<equiv> vertex_GetNode geo val_marker iVertex"
  defines "s1 \<equiv> snd (snd (BC_HeatFlux_Wall_Generic_vertex X geo cfg val_marker kind_boundary
                              Transfer_Coefficient Tinfinity iVertex (Wall_HeatFlux, Jacobian_i, s)))"
  defines "s2 \<equiv> CInc_BC_Wall_Generic_vertex geo cfg val_marker kind_boundary' Wall_HeatFlux' Twall iVertex s"
  assumes static: "\<not> dynamic_grid s"
    and dom: "nodes_GetDomain geo iPoint"
    and iVar: "1 \<le> iVar" "iVar \<le> nDim s"
  shows "LinSysRes s1 iPoint iVar = 0 \<and> Velocity_Old s1 iPoint (iVar - 1) = 0 \<and>
         (GetKind_TimeIntScheme cfg = EULER_IMPLICIT \<longrightarrow>
            Jacobian s1 (iPoint * nVar s + iVar) = (\<lambda>c. if c = iPoint * nVar s + iVar then 1 else 0)) \<and>
         LinSysRes s2 iPoint iVar = 0 \<and> Velocity_Old s2 iPoint (iVar - 1) = 0 \<and>
         (GetKind_TimeIntScheme cfg = EULER_IMPLICIT \<longrightarrow>
            Jacobian s2 (iPoint * nVar s + iVar) = (\<lambda>c. if c = iPoint * nVar s + iVar then 1 else 0))"
proof -
  have dom': "nodes_GetDomain geo (vertex_GetNode geo val_marker iVertex)"
    using dom by (simp add: iPoint_def)
  have lt: "iVar - 1 < nDim s" and ne: "iVar \<noteq> nDim s + 1" using iVar by auto
  from CNS_heatflux_static_result [OF static dom', of X cfg kind_boundary Transfer_Coefficient Tinfinity
      Wall_HeatFlux Jacobian_i]
  obtain t J where r: "s1 = (if GetKind_TimeIntScheme cfg \<noteq> EULER_IMPLICIT then t
              else t\<lparr>Jacobian := delete_momentum_rows (nDim s) (nVar s) iPoint J\<rparr>)"
    and l: "LinSysRes t iPoint iVar = LinSysRes (impose_wall_velocity geo s iPoint) iPoint iVar"
    and v: "Velocity_Old t = Velocity_Old (impose_wall_velocity geo s iPoint)"
    unfolding s1_def iPoint_def using ne by (auto simp: add_residual_LinSysRes)
  have a: "LinSysRes s1 iPoint iVar = 0"
    using iVar l unfolding r by (simp add: impose_wall_velocity_LinSysRes)
  have b: "Velocity_Old s1 iPoint (iVar - 1) = 0"
    using lt static v unfolding r by (simp add: impose_wall_velocity_Velocity_Old)
  have c: "GetKind_TimeIntScheme cfg = EULER_IMPLICIT \<Longrightarrow>
            Jacobian s1 (iPoint * nVar s + iVar) = (\<lambda>c. if c = iPoint * nVar s + iVar then 1 else 0)"
    using iVar unfolding r by (simp add: delete_momentum_rows_unit)
  have d: "LinSysRes s2 iPoint iVar = 0"
    unfolding s2_def iPoint_def CInc_BC_Wall_Generic_vertex_def
    using iVar ne dom'
    by (simp add: Let_def add_residual_LinSysRes impose_wall_velocity_LinSysRes)
  have e: "Velocity_Old s2 iPoint (iVar - 1) = 0"
    unfolding s2_def iPoint_def CInc_BC_Wall_Generic_vertex_def
    using lt static dom'
    by (simp add: Let_def add_residual_frame impose_wall_velocity_Velocity_Old)
  have f: "GetKind_TimeIntScheme cfg = EULER_IMPLICIT \<Longrightarrow>
            Jacobian s2 (iPoint * nVar s + iVar) = (\<lambda>c. if c = iPoint * nVar s + iVar then 1 else 0)"
    unfolding s2_def iPoint_def CInc_BC_Wall_Generic_vertex_def
    using iVar dom' ne
    by (simp add: Let_def add_residual_frame impose_wall_velocity_frame delete_momentum_rows_unit AddVal2Diag_def)
  from a b c d e f show ?thesis by simp
qed


theorem strong_velocity_dirichlet_witness:
  "\<not> dynamic_grid ex_solver \<and> nodes_GetDomain ex_geometry (vertex_GetNode ex_geometry 0 0) \<and>
   (1::nat) \<le> 1 \<and> 1 \<le> nDim ex_solver \<and> GetKind_TimeIntScheme ex_config = EULER_IMPLICIT \<and>
   LinSysRes ex_solver 0 1 = 10 \<and>
   LinSysRes (snd (snd (BC_HeatFlux_Wall_Generic_vertex ex_numerics ex_geometry ex_config 0 HEAT_FLUX 0 0 0
                          (0, None, ex_solver)))) 0 1 = 0 \<and>
   Velocity_Old (snd (snd (BC_HeatFlux_Wall_Generic_vertex ex_numerics ex_geometry ex_config 0 HEAT_FLUX 0 0 0
                          (0, None, ex_solver)))) 0 0 = 0 \<and>
   Jacobian (snd (snd (BC_HeatFlux_Wall_Generic_vertex ex_numerics ex_geometry ex_config 0 HEAT_FLUX 0 0 0
                          (0, None, ex_solver)))) 1 = (\<lambda>c. if c = 1 then 1 else 0) \<and>
   LinSysRes (CInc_BC_Wall_Generic_vertex ex_geometry ex_config 0 ISOTHERMAL 0 3 0 ex_solver) 0 1 = 0 \<and>
   Velocity_Old (CInc_BC_Wall_Generic_vertex ex_geometry ex_config 0 ISOTHERMAL 0 3 0 ex_solver) 0 0 = 0 \<and>
   Jacobian (CInc_BC_Wall_Generic_vertex ex_geometry ex_config 0 ISOTHERMAL 0 3 0 ex_solver) 1
     = (\<lambda>c. if c = 1 then 1 else 0)"
proof -
  have static: "\<not> dynamic_grid ex_solver" by (simp add: ex_solver_def)
  have dom: "nodes_GetDomain ex_geometry (vertex_GetNode ex_geometry 0 0)" by (simp add: ex_geometry_def)
  have n: "(1::nat) \<le> 1" "1 \<le> nDim ex_solver" by (simp_all add: ex_solver_def)
  have i: "GetKind_TimeIntScheme ex_config = EULER_IMPLICIT" by (simp add: ex_config_def)
  have p: "vertex_GetNode ex_geometry 0 0 = 0" by (simp add: ex_geometry_def)
  have v: "nVar ex_solver = 4" and r: "LinSysRes ex_solver 0 1 = 10" by (simp_all add: ex_solver_def)
  show ?thesis
    using strong_velocity_dirichlet [OF static dom n, where X = ex_numerics and cfg = ex_config
        and kind_boundary = HEAT_FLUX and Transfer_Coefficient = 0 and Tinfinity = 0 and Wall_HeatFlux = 0
        and Jacobian_i = None and kind_boundary' = ISOTHERMAL and Wall_HeatFlux' = 0 and Twall = 3]
      static dom n i r
    by (simp add: p v)
qed

lemma DotProduct_Distance_vec_commute:
  "DotProduct n (Distance_vec m a b) (Distance_vec m a b) = DotProduct n (Distance_vec m b a) (Distance_vec m b a)"
  by (induction n) (auto simp: Distance_vec_def algebra_simps)

lemma Distance_commute: "Distance n a b = Distance n b a"
  by (simp add: Distance_def Norm_def SquaredNorm_def DotProduct_Distance_vec_commute)

lemma wall_flux_sign:
  fixes k :: real
  shows "r + (0 - k * (- (tn - tw) / d) * a) = r - k * (tw - tn) / d * a"
    and "r + - (k * (- (tn - tw) / d) * a) = r - k * (tw - tn) / d * a"
proof -
  have "- (tn - tw) / d = (tw - tn) / d" by simp
  then show "r + (0 - k * (- (tn - tw) / d) * a) = r - k * (tw - tn) / d * a"
    and "r + - (k * (- (tn - tw) / d) * a) = r - k * (tw - tn) / d * a" by simp_all
qed

lemma CNS_isothermal_static_residual:
  assumes "\<not> dynamic_grid s" "nodes_GetDomain geo (vertex_GetNode geo val_marker iVertex)"
  shows "\<exists>J' s'. BC_Isothermal_Wall_Generic_vertex X geo cfg val_marker False iVertex (Twall0, Jacobian_i, s)
            = Inr (if GetMarker_All_PyCustom cfg val_marker
                   then GetCustomBoundaryTemperature geo val_marker iVertex else Twall0, J', s') \<and>
          LinSysRes s' = LinSysRes (add_residual (impose_wall_velocity geo s (vertex_GetNode geo val_marker iVertex))
             (vertex_GetNode geo val_marker iVertex) (nDim s + 1)
             (0 - (Gamma s / (Gamma s - 1)) * GetGas_ConstantND cfg *
                   (LaminarViscosity s (vertex_GetNode geo val_marker iVertex) / GetPrandtl_Lam cfg +
                    EddyViscosity s (vertex_GetNode geo val_marker iVertex) / GetPrandtl_Turb cfg) *
                  (- (Temperature s (vertex_GetNormal_Neighbor geo val_marker iVertex) -
                      (if GetMarker_All_PyCustom cfg val_marker
                       then GetCustomBoundaryTemperature geo val_marker iVertex else Twall0)) /
                     Distance (nDim s) (nodes_GetCoord geo (vertex_GetNode geo val_marker iVertex))
                       (nodes_GetCoord geo (vertex_GetNormal_Neighbor geo val_marker iVertex))) *
                  Norm (nDim s) (vertex_GetNormal geo val_marker iVertex)))"
  using assms
  unfolding BC_Isothermal_Wall_Generic_vertex_def BC_Isothermal_Wall_Twall_def Let_def
  by (auto split: option.splits)

section \<open>Isothermal walls: the energy residual\<close>

text \<open>
  Claim C3. At a vertex of the domain of an isothermal wall on a static grid, the kernel
  changes the energy entry of the residual of the wall point by subtracting
  \<open>thermal_conductivity * (T_wall - T_neighbor) / dist_ij * Area\<close>, where \<open>T_neighbor\<close>
  is the temperature of the normal neighbour and \<open>dist_ij\<close> the distance between the
  two points. In the compressible kernel the conductivity is
  \<open>Cp * (laminar_viscosity / Prandtl_Lam + eddy_viscosity / Prandtl_Turb)\<close> and the wall
  temperature is the prescribed one (the custom one on a customizable marker); in the
  incompressible kernel, with the energy equation active, the conductivity is the one
  stored at the wall point.
\<close>

theorem isothermal_energy_residual:
  fixes s :: solver and geo val_marker iVertex X cfg Twall_in Jacobian_i Wall_HeatFlux' Twall
  defines "iPoint \<equiv> vertex_GetNode geo val_marker iVertex"
  defines "Point_Normal \<equiv> vertex_GetNormal_Neighbor geo val_marker iVertex"
  defines "Area \<equiv> Norm (nDim s) (vertex_GetNormal geo val_marker iVertex)"
  defines "dist_ij \<equiv> Distance (nDim s) (nodes_GetCoord geo iPoint) (nodes_GetCoord geo Point_Normal)"
  defines "T_neighbor \<equiv> Temperature s Point_Normal"
  defines "T_wall \<equiv> (if GetMarker_All_PyCustom cfg val_marker
                       then GetCustomBoundaryTemperature geo val_marker iVertex else Twall_in)"
  defines "thermal_conductivity \<equiv>
             (Gamma s / (Gamma s - 1)) * GetGas_ConstantND cfg *
             (LaminarViscosity s iPoint / GetPrandtl_Lam cfg + EddyViscosity s iPoint / GetPrandtl_Turb cfg)"
  assumes static: "\<not> dynamic_grid s"
    and dom: "nodes_GetDomain geo iPoint"
  shows "(\<exists>J' s'. BC_Isothermal_Wall_Generic_vertex X geo cfg val_marker False iVertex (Twall_in, Jacobian_i, s)
                     = Inr (T_wall, J', s') \<and>
                   LinSysRes s' iPoint (nDim s + 1) =
                     LinSysRes s iPoint (nDim s + 1) -
                     thermal_conductivity * (T_wall - T_neighbor) / dist_ij * Area) \<and>
         (GetEnergy_Equation cfg \<longrightarrow>
            LinSysRes (CInc_BC_Wall_Generic_vertex geo cfg val_marker ISOTHERMAL Wall_HeatFlux' Twall iVertex s)
              iPoint (nDim s + 1) =
            LinSysRes s iPoint (nDim s + 1) -
            ThermalConductivity s iPoint * (Twall - T_neighbor) / dist_ij * Area)"
proof -
  have dom': "nodes_GetDomain geo (vertex_GetNode geo val_marker iVertex)"
    using dom by (simp add: iPoint_def)
  from CNS_isothermal_static_residual [OF static dom', of X cfg Twall_in Jacobian_i]
  obtain J' s' where r: "BC_Isothermal_Wall_Generic_vertex X geo cfg val_marker False iVertex (Twall_in, Jacobian_i, s)
            = Inr (T_wall, J', s')"
    and l0: "LinSysRes s' = LinSysRes (add_residual (impose_wall_velocity geo s iPoint) iPoint (nDim s + 1)
                (0 - thermal_conductivity * (- (T_neighbor - T_wall) / dist_ij) * Area))"
    unfolding T_wall_def iPoint_def thermal_conductivity_def T_neighbor_def dist_ij_def Area_def Point_Normal_def
    by blast
  have "LinSysRes s' iPoint (nDim s + 1) =
          LinSysRes s iPoint (nDim s + 1) + (0 - thermal_conductivity * (- (T_neighbor - T_wall) / dist_ij) * Area)"
    unfolding l0 by (simp add: add_residual_LinSysRes impose_wall_velocity_LinSysRes)
  also have "\<dots> = LinSysRes s iPoint (nDim s + 1) - thermal_conductivity * (T_wall - T_neighbor) / dist_ij * Area"
    by (rule wall_flux_sign)
  finally have l: "LinSysRes s' iPoint (nDim s + 1) =
      LinSysRes s iPoint (nDim s + 1) - thermal_conductivity * (T_wall - T_neighbor) / dist_ij * Area" .
  have inc: "LinSysRes (CInc_BC_Wall_Generic_vertex geo cfg val_marker ISOTHERMAL Wall_HeatFlux' Twall iVertex s)
              iPoint (nDim s + 1) =
            LinSysRes s iPoint (nDim s + 1) -
            ThermalConductivity s iPoint * (Twall - T_neighbor) / dist_ij * Area"
    if e: "GetEnergy_Equation cfg"
  proof -
    have d: "sqrt (SquaredNorm (nDim s) (Distance_vec (nDim s) (nodes_GetCoord geo Point_Normal)
                (nodes_GetCoord geo iPoint))) = dist_ij"
      unfolding dist_ij_def Distance_commute [of _ "nodes_GetCoord geo iPoint"]
      by (simp add: Distance_def Norm_def)
    have "LinSysRes (CInc_BC_Wall_Generic_vertex geo cfg val_marker ISOTHERMAL Wall_HeatFlux' Twall iVertex s)
              iPoint (nDim s + 1) =
          LinSysRes s iPoint (nDim s + 1) +
            - (ThermalConductivity s iPoint * (- (T_neighbor - Twall) / dist_ij) * Area)"
      using e dom' unfolding d [symmetric]
      unfolding iPoint_def T_neighbor_def Area_def Point_Normal_def
      by (simp add: CInc_BC_Wall_Generic_vertex_def Let_def add_residual_LinSysRes impose_wall_velocity_LinSysRes)
    also have "\<dots> = LinSysRes s iPoint (nDim s + 1) -
            ThermalConductivity s iPoint * (Twall - T_neighbor) / dist_ij * Area"
      by (rule wall_flux_sign)
    finally show ?thesis .
  qed
  from r l inc show ?thesis by blast
qed


theorem isothermal_energy_residual_witness:
  "\<not> dynamic_grid ex_solver \<and> nodes_GetDomain ex_geometry (vertex_GetNode ex_geometry 0 0) \<and>
   GetEnergy_Equation ex_config \<and> LinSysRes ex_solver 0 3 = 10 \<and>
   (\<exists>J' s'. BC_Isothermal_Wall_Generic_vertex ex_numerics ex_geometry ex_config 0 False 0 (5, None, ex_solver)
              = Inr (5, J', s') \<and> LinSysRes s' 0 3 = 6) \<and>
   LinSysRes (CInc_BC_Wall_Generic_vertex ex_geometry ex_config 0 ISOTHERMAL 0 5 0 ex_solver) 0 3 = 6"
proof -
  have static: "\<not> dynamic_grid ex_solver" by (simp add: ex_solver_def)
  have dom: "nodes_GetDomain ex_geometry (vertex_GetNode ex_geometry 0 0)" by (simp add: ex_geometry_def)
  have e: "GetEnergy_Equation ex_config" by (simp add: ex_config_def)
  have p: "vertex_GetNode ex_geometry 0 0 = 0" "vertex_GetNormal_Neighbor ex_geometry 0 0 = 1"
    "\<not> GetMarker_All_PyCustom ex_config 0"
    by (simp_all add: ex_geometry_def ex_config_def)
  have v: "Suc (nDim ex_solver) = 3" "LinSysRes ex_solver 0 3 = 10" "Temperature ex_solver (Suc 0) = 3"
    "ThermalConductivity ex_solver 0 = 2"
    "Gamma ex_solver / (Gamma ex_solver - 1) * GetGas_ConstantND ex_config *
       (LaminarViscosity ex_solver 0 / GetPrandtl_Lam ex_config +
        EddyViscosity ex_solver 0 / GetPrandtl_Turb ex_config) = 2"
    by (simp_all add: ex_solver_def ex_config_def)
  have g: "Norm (nDim ex_solver) (vertex_GetNormal ex_geometry 0 0) = 1"
    "Distance (nDim ex_solver) (nodes_GetCoord ex_geometry 0) (nodes_GetCoord ex_geometry (Suc 0)) = 1"
    by (simp_all add: ex_defs toolbox_defs eval_nat_numeral)
  show ?thesis
    using isothermal_energy_residual [OF static dom, where X = ex_numerics and cfg = ex_config
        and Twall_in = 5 and Jacobian_i = None and Wall_HeatFlux' = 0 and Twall = 5]
      static dom e
    by (simp add: p v g) (simp add: ex_solver_def ex_config_def)
qed

section \<open>Conjugate heat transfer\<close>

lemma CInc_CHT_Twall_averaged:
  assumes "GetKind_CHT_Coupling cfg = AVERAGED_TEMPERATURE_NEUMANN_HEATFLUX \<or>
           GetKind_CHT_Coupling cfg = AVERAGED_TEMPERATURE_ROBIN_HEATFLUX"
  shows "CInc_CHT_Twall geo cfg s val_marker iVertex =
         Inr (spec_CHT_wall_temperature
                (ThermalConductivity s (vertex_GetNode geo val_marker iVertex))
                (GetViscosity_Ref cfg)
                (Distance (nDim s) (nodes_GetCoord geo (vertex_GetNormal_Neighbor geo val_marker iVertex))
                   (nodes_GetCoord geo (vertex_GetNode geo val_marker iVertex)))
                (Temperature s (vertex_GetNormal_Neighbor geo val_marker iVertex))
                (ConjugateVar s val_marker iVertex 0 / GetTemperature_Ref cfg)
                (ConjugateVar s val_marker iVertex 2))"
  using assms unfolding CInc_CHT_Twall_def spec_CHT_wall_temperature_def Let_def by auto

lemma CInc_CHT_Twall_direct:
  assumes "GetKind_CHT_Coupling cfg = DIRECT_TEMPERATURE_NEUMANN_HEATFLUX \<or>
           GetKind_CHT_Coupling cfg = DIRECT_TEMPERATURE_ROBIN_HEATFLUX"
  shows "CInc_CHT_Twall geo cfg s val_marker iVertex =
         Inr (ConjugateVar s val_marker iVertex 0 / GetTemperature_Ref cfg)"
  using assms unfolding CInc_CHT_Twall_def Let_def by auto

lemma BC_Isothermal_Wall_Twall_direct:
  assumes "GetKind_CHT_Coupling cfg = DIRECT_TEMPERATURE_NEUMANN_HEATFLUX \<or>
           GetKind_CHT_Coupling cfg = DIRECT_TEMPERATURE_ROBIN_HEATFLUX"
  shows "BC_Isothermal_Wall_Twall geo cfg s val_marker True iVertex dist_ij thermal_conductivity There Twall_in =
         Inr (ConjugateVar s val_marker iVertex 0 / GetTemperature_Ref cfg)"
  using assms unfolding BC_Isothermal_Wall_Twall_def GetCHTWallTemperature_def Let_def by auto

lemma BC_Isothermal_Wall_Twall_averaged:
  assumes "GetKind_CHT_Coupling cfg = AVERAGED_TEMPERATURE_NEUMANN_HEATFLUX \<or>
           GetKind_CHT_Coupling cfg = AVERAGED_TEMPERATURE_ROBIN_HEATFLUX"
  shows "BC_Isothermal_Wall_Twall geo cfg s val_marker True iVertex dist_ij thermal_conductivity There Twall_in =
         Inr (spec_CHT_wall_temperature dist_ij (GetViscosity_Ref cfg) thermal_conductivity There
                (ConjugateVar s val_marker iVertex 0 / GetTemperature_Ref cfg)
                (ConjugateVar s val_marker iVertex 2))"
  using assms unfolding BC_Isothermal_Wall_Twall_def GetCHTWallTemperature_def spec_CHT_wall_temperature_def Let_def
  by auto

text \<open>
  Claim C1, at a failing input. With the averaged coupling, conductivity \<open>2\<close>, distance
  \<open>1\<close>, reference viscosity \<open>1\<close>, neighbour temperature \<open>3\<close>, conjugate temperature
  \<open>0\<close> and conjugate conductance \<open>1\<close>, the flux-weighted average of the claim is \<open>2\<close>
  and the incompressible kernel computes it, while the compressible kernel, whose call
  passes the distance for the conductivity and the conductivity for the distance, uses
  the wall temperature \<open>1\<close>.
\<close>

theorem compressible_cht_wall_temperature_swapped:
  "GetKind_CHT_Coupling ex_config = AVERAGED_TEMPERATURE_NEUMANN_HEATFLUX \<and>
   nodes_GetDomain ex_geometry (vertex_GetNode ex_geometry 0 0) \<and>
   map_sum id fst (BC_Isothermal_Wall_Generic_vertex ex_numerics ex_geometry ex_config 0 True 0
                     (0, Some (\<lambda>_ _. 0), ex_solver)) = Inr 1 \<and>
   spec_CHT_wall_temperature
     (Gamma ex_solver / (Gamma ex_solver - 1) * GetGas_ConstantND ex_config *
        (LaminarViscosity ex_solver 0 / GetPrandtl_Lam ex_config +
         EddyViscosity ex_solver 0 / GetPrandtl_Turb ex_config))
     (GetViscosity_Ref ex_config)
     (Distance (nDim ex_solver) (nodes_GetCoord ex_geometry 0) (nodes_GetCoord ex_geometry 1))
     (Temperature ex_solver 1)
     (ConjugateVar ex_solver 0 0 0 / GetTemperature_Ref ex_config)
     (ConjugateVar ex_solver 0 0 2) = 2 \<and>
   CInc_CHT_Twall ex_geometry ex_config ex_solver 0 0 = Inr 2"
proof -
  have a: "map_sum id fst (BC_Isothermal_Wall_Generic_vertex ex_numerics ex_geometry ex_config 0 True 0
                     (0, Some (\<lambda>_ _. 0), ex_solver)) = Inr 1"
    unfolding BC_Isothermal_Wall_Generic_vertex_def BC_Isothermal_Wall_Twall_def GetCHTWallTemperature_def Let_def
    by (simp add: ex_defs toolbox_defs eval_nat_numeral)
  have b: "CInc_CHT_Twall ex_geometry ex_config ex_solver 0 0 = Inr 2"
    unfolding CInc_CHT_Twall_def Let_def
    by (simp add: ex_defs toolbox_defs eval_nat_numeral)
  show ?thesis
    using a b by (simp add: spec_CHT_wall_temperature_def ex_defs toolbox_defs eval_nat_numeral)
qed


section \<open>Unknown configuration values\<close>

text \<open>
  Claim C9, amended. At a vertex of the domain, with a coupling method that is none of the
  four enumerators, the compressible conjugate-heat kernel aborts with the message
  "Unknown CHT coupling method.", and so does the incompressible one when the energy
  equation is active; when it is not, the incompressible kernel returns after imposing
  the velocity, without evaluating a coupling law and without touching the old solution.
  The incompressible generic wall routine aborts with "Unknown type of boundary
  condition" for a kind of boundary that is neither heat flux nor isothermal.
\<close>

theorem unknown_coupling_aborts:
  assumes unknown: "GetKind_CHT_Coupling cfg \<noteq> DIRECT_TEMPERATURE_NEUMANN_HEATFLUX"
      "GetKind_CHT_Coupling cfg \<noteq> AVERAGED_TEMPERATURE_NEUMANN_HEATFLUX"
      "GetKind_CHT_Coupling cfg \<noteq> DIRECT_TEMPERATURE_ROBIN_HEATFLUX"
      "GetKind_CHT_Coupling cfg \<noteq> AVERAGED_TEMPERATURE_ROBIN_HEATFLUX"
    and dom: "nodes_GetDomain geo (vertex_GetNode geo val_marker iVertex)"
  shows "BC_Isothermal_Wall_Generic_vertex X geo cfg val_marker True iVertex (Twall_in, Jacobian_i, s)
           = Inl (SU2_MPI_Error ''Unknown CHT coupling method.'') \<and>
         (GetEnergy_Equation cfg \<longrightarrow>
            CInc_BC_ConjugateHeat_Interface_vertex geo cfg val_marker iVertex s
              = Inl (SU2_MPI_Error ''Unknown CHT coupling method.'')) \<and>
         (\<not> GetEnergy_Equation cfg \<longrightarrow>
            (\<exists>s'. CInc_BC_ConjugateHeat_Interface_vertex geo cfg val_marker iVertex s = Inr s' \<and>
                  Solution_Old s' = Solution_Old s)) \<and>
         (kind_boundary \<noteq> HEAT_FLUX \<and> kind_boundary \<noteq> ISOTHERMAL \<longrightarrow>
            CInc_BC_Wall_Generic geo cfg val_marker kind_boundary s
              = Inl (SU2_MPI_Error ''Unknown type of boundary condition''))"
proof -
  have a: "BC_Isothermal_Wall_Generic_vertex X geo cfg val_marker True iVertex (Twall_in, Jacobian_i, s)
           = Inl (SU2_MPI_Error ''Unknown CHT coupling method.'')"
    using unknown dom
    unfolding BC_Isothermal_Wall_Generic_vertex_def BC_Isothermal_Wall_Twall_def GetCHTWallTemperature_def Let_def
    by simp
  have b: "CInc_BC_ConjugateHeat_Interface_vertex geo cfg val_marker iVertex s
              = Inl (SU2_MPI_Error ''Unknown CHT coupling method.'')" if "GetEnergy_Equation cfg"
    using unknown dom that
    unfolding CInc_BC_ConjugateHeat_Interface_vertex_def CInc_CHT_Twall_def Let_def
    by simp
  have c: "\<exists>s'. CInc_BC_ConjugateHeat_Interface_vertex geo cfg val_marker iVertex s = Inr s' \<and>
                  Solution_Old s' = Solution_Old s" if "\<not> GetEnergy_Equation cfg"
    using dom that
    unfolding CInc_BC_ConjugateHeat_Interface_vertex_def Let_def
    by (simp add: impose_wall_velocity_def SetVelocity_Old_def SetVel_ResTruncError_Zero_def Let_def)
  have d: "CInc_BC_Wall_Generic geo cfg val_marker kind_boundary s
              = Inl (SU2_MPI_Error ''Unknown type of boundary condition'')"
    if "kind_boundary \<noteq> HEAT_FLUX \<and> kind_boundary \<noteq> ISOTHERMAL"
    using that unfolding CInc_BC_Wall_Generic_def Let_def by simp
  from a b c d show ?thesis by blast
qed

text \<open>
  The claim as stated fails in the incompressible solver with the energy equation off: the
  vertex is processed with an unknown coupling method and the kernel does not abort.
\<close>

theorem unknown_coupling_no_abort_counterexample:
  "GetKind_CHT_Coupling ex_config_unknown = CHT_COUPLING_other 4 \<and>
   nodes_GetDomain ex_geometry (vertex_GetNode ex_geometry 0 0) \<and>
   nVertex ex_geometry 0 = 1 \<and>
   \<not> isl (CInc_BC_ConjugateHeat_Interface_vertex ex_geometry ex_config_unknown 0 0 ex_solver) \<and>
   \<not> isl (CInc_BC_ConjugateHeat_Interface ex_geometry ex_config_unknown 0 ex_solver)"
proof -
  have v: "\<not> isl (CInc_BC_ConjugateHeat_Interface_vertex ex_geometry ex_config_unknown 0 0 ex_solver)"
    unfolding CInc_BC_ConjugateHeat_Interface_vertex_def Let_def
    by (simp add: ex_config_unknown_def ex_config_def ex_geometry_def)
  then obtain s' where s': "CInc_BC_ConjugateHeat_Interface_vertex ex_geometry ex_config_unknown 0 0 ex_solver = Inr s'"
    by (cases "CInc_BC_ConjugateHeat_Interface_vertex ex_geometry ex_config_unknown 0 0 ex_solver") auto
  have n: "[0..<nVertex ex_geometry 0] = [0]" by (simp add: ex_geometry_def)
  have m: "\<not> isl (CInc_BC_ConjugateHeat_Interface ex_geometry ex_config_unknown 0 ex_solver)"
    unfolding CInc_BC_ConjugateHeat_Interface_def Let_def n
    by (simp add: s') (simp add: ex_config_unknown_def ex_config_def)
  show ?thesis
    using v m by (simp add: ex_config_unknown_def ex_config_def ex_geometry_def)
qed

theorem unknown_coupling_aborts_witness:
  "GetKind_CHT_Coupling ex_config_unknown \<noteq> DIRECT_TEMPERATURE_NEUMANN_HEATFLUX \<and>
   GetKind_CHT_Coupling ex_config_unknown \<noteq> AVERAGED_TEMPERATURE_NEUMANN_HEATFLUX \<and>
   GetKind_CHT_Coupling ex_config_unknown \<noteq> DIRECT_TEMPERATURE_ROBIN_HEATFLUX \<and>
   GetKind_CHT_Coupling ex_config_unknown \<noteq> AVERAGED_TEMPERATURE_ROBIN_HEATFLUX \<and>
   nodes_GetDomain ex_geometry (vertex_GetNode ex_geometry 0 0) \<and>
   GetEnergy_Equation (ex_config_unknown\<lparr>GetEnergy_Equation := True\<rparr>) \<and>
   \<not> GetEnergy_Equation ex_config_unknown \<and>
   HEAT_TRANSFER \<noteq> HEAT_FLUX \<and> HEAT_TRANSFER \<noteq> ISOTHERMAL \<and>
   BC_Isothermal_Wall_Generic_vertex ex_numerics ex_geometry ex_config_unknown 0 True 0 (0, None, ex_solver)
     = Inl (SU2_MPI_Error ''Unknown CHT coupling method.'') \<and>
   CInc_BC_ConjugateHeat_Interface_vertex ex_geometry (ex_config_unknown\<lparr>GetEnergy_Equation := True\<rparr>) 0 0 ex_solver
     = Inl (SU2_MPI_Error ''Unknown CHT coupling method.'') \<and>
   CInc_BC_Wall_Generic ex_geometry ex_config_unknown 0 HEAT_TRANSFER ex_solver
     = Inl (SU2_MPI_Error ''Unknown type of boundary condition'')"
proof -
  have u: "GetKind_CHT_Coupling ex_config_unknown \<noteq> DIRECT_TEMPERATURE_NEUMANN_HEATFLUX"
      "GetKind_CHT_Coupling ex_config_unknown \<noteq> AVERAGED_TEMPERATURE_NEUMANN_HEATFLUX"
      "GetKind_CHT_Coupling ex_config_unknown \<noteq> DIRECT_TEMPERATURE_ROBIN_HEATFLUX"
      "GetKind_CHT_Coupling ex_config_unknown \<noteq> AVERAGED_TEMPERATURE_ROBIN_HEATFLUX"
    by (simp_all add: ex_config_unknown_def)
  have u': "GetKind_CHT_Coupling (ex_config_unknown\<lparr>GetEnergy_Equation := True\<rparr>) \<noteq> DIRECT_TEMPERATURE_NEUMANN_HEATFLUX"
      "GetKind_CHT_Coupling (ex_config_unknown\<lparr>GetEnergy_Equation := True\<rparr>) \<noteq> AVERAGED_TEMPERATURE_NEUMANN_HEATFLUX"
      "GetKind_CHT_Coupling (ex_config_unknown\<lparr>GetEnergy_Equation := True\<rparr>) \<noteq> DIRECT_TEMPERATURE_ROBIN_HEATFLUX"
      "GetKind_CHT_Coupling (ex_config_unknown\<lparr>GetEnergy_Equation := True\<rparr>) \<noteq> AVERAGED_TEMPERATURE_ROBIN_HEATFLUX"
    by (simp_all add: ex_config_unknown_def)
  have dom: "nodes_GetDomain ex_geometry (vertex_GetNode ex_geometry 0 0)" by (simp add: ex_geometry_def)
  have e: "\<not> GetEnergy_Equation ex_config_unknown" by (simp add: ex_config_unknown_def)
  show ?thesis
    using unknown_coupling_aborts [OF u dom, where X = ex_numerics and kind_boundary = HEAT_TRANSFER
        and s = ex_solver and Twall_in = 0 and Jacobian_i = None]
      unknown_coupling_aborts [OF u' dom, where X = ex_numerics and kind_boundary = HEAT_TRANSFER
        and s = ex_solver and Twall_in = 0 and Jacobian_i = None]
      u dom e
    by simp
qed

section \<open>SST axisymmetric correction\<close>

text \<open>
  Claim C8, amended. With a positive \<open>EPS\<close>: when the y-coordinate is below \<open>EPS\<close> the
  routine returns its object unchanged and evaluates no division; otherwise the
  y-coordinate is not zero, the two entries of the residual grow by
  \<open>yinv * Volume * (pk_axi - cdk_axi)\<close> and \<open>yinv * Volume * (pw_axi - cdw_axi)\<close> with
  \<open>yinv = 1 / y\<close>, and a division by zero is evaluated exactly when \<open>zeta\<close> or
  \<open>k = ScalarVar_i[0]\<close> is zero.
\<close>

theorem axisymmetric_guard:
  assumes "0 < EPS X"
  shows "(Coord_i n 1 < EPS X \<longrightarrow>
            ResidualAxisymmetric X alfa_blended zeta n = n \<and>
            ResidualAxisymmetric_divisors X alfa_blended zeta n = []) \<and>
         (\<not> Coord_i n 1 < EPS X \<longrightarrow>
            Coord_i n 1 \<noteq> 0 \<and>
            Residual (ResidualAxisymmetric X alfa_blended zeta n) 0 =
              Residual n 0 + 1 / Coord_i n 1 * Volume n * (pk_axi zeta n - cdk_axi n) \<and>
            Residual (ResidualAxisymmetric X alfa_blended zeta n) 1 =
              Residual n 1 + 1 / Coord_i n 1 * Volume n * (pw_axi alfa_blended zeta n - cdw_axi n) \<and>
            (0 \<in> set (ResidualAxisymmetric_divisors X alfa_blended zeta n)
               \<longleftrightarrow> zeta = 0 \<or> ScalarVar_i n 0 = 0))"
  using assms unfolding ResidualAxisymmetric_def ResidualAxisymmetric_divisors_def Let_def
  by auto

text \<open>
  The claim as stated, that no input leads to a division by zero, fails off the axis when
  the turbulent kinetic energy is zero: \<open>alfa_blended * zeta / k\<close> divides by zero.
\<close>

theorem axisymmetric_division_by_zero_counterexample:
  "\<not> Coord_i ex_sst 1 < EPS ex_numerics \<and> 0 \<in> set (ResidualAxisymmetric_divisors ex_numerics 1 1 ex_sst)"
  by (simp add: ResidualAxisymmetric_divisors_def ex_sst_def ex_numerics_def)

theorem axisymmetric_guard_witness:
  "0 < EPS ex_numerics \<and>
   Coord_i (ex_sst\<lparr>Coord_i := (\<lambda>_. 0)\<rparr>) 1 < EPS ex_numerics \<and>
   ResidualAxisymmetric ex_numerics 1 1 (ex_sst\<lparr>Coord_i := (\<lambda>_. 0)\<rparr>) = ex_sst\<lparr>Coord_i := (\<lambda>_. 0)\<rparr> \<and>
   \<not> Coord_i (ex_sst\<lparr>ScalarVar_i := (\<lambda>_. 1)\<rparr>) 1 < EPS ex_numerics \<and>
   Residual (ResidualAxisymmetric ex_numerics 1 1 (ex_sst\<lparr>ScalarVar_i := (\<lambda>_. 1)\<rparr>)) 0 = - (1 / 3) \<and>
   Residual (ResidualAxisymmetric ex_numerics 1 1 (ex_sst\<lparr>ScalarVar_i := (\<lambda>_. 1)\<rparr>)) 1 = - (1 / 3) \<and>
   0 \<notin> set (ResidualAxisymmetric_divisors ex_numerics 1 1 (ex_sst\<lparr>ScalarVar_i := (\<lambda>_. 1)\<rparr>))"
proof -
  have e: "0 < EPS ex_numerics" by (simp add: ex_numerics_def)
  show ?thesis
    using axisymmetric_guard [OF e, where n = "ex_sst\<lparr>Coord_i := (\<lambda>_. 0)\<rparr>" and alfa_blended = 1 and zeta = 1]
      axisymmetric_guard [OF e, where n = "ex_sst\<lparr>ScalarVar_i := (\<lambda>_. 1)\<rparr>" and alfa_blended = 1 and zeta = 1] e
    by (simp add: ex_sst_def ex_numerics_def pk_axi_def pw_axi_def cdk_axi_def cdw_axi_def)
qed

section \<open>Heat-transfer wall with zero coefficient\<close>

lemma add_entry_zero: "add_entry B r c 0 = B"
  by (simp add: add_entry_def)

lemma add_to_row_loop_zero: "add_to_row_loop n row (\<lambda>_. 0) B = B"
  by (induction n) (simp_all add: add_entry_zero)

lemma AddBlock2Diag_zero:
  assumes "\<And>i j. i < nV \<Longrightarrow> j < nV \<Longrightarrow> B i j = 0"
  shows "AddBlock2Diag nV J p B = J"
proof (intro ext)
  fix r c
  show "AddBlock2Diag nV J p B r c = J r c"
  proof (cases "p * nV \<le> r \<and> r < p * nV + nV \<and> p * nV \<le> c \<and> c < p * nV + nV")
    case True
    then have "r - p * nV < nV" "c - p * nV < nV" by auto
    then have "B (r - p * nV) (c - p * nV) = 0" by (rule assms)
    then show ?thesis using True by (auto simp: AddBlock2Diag_def)
  next
    case False
    then show ?thesis by (auto simp: AddBlock2Diag_def)
  qed
qed

lemma AddDynamicGridResidualContribution_None:
  "fst (AddDynamicGridResidualContribution X s p pn geo un a gv None rc rv) = None"
  by (simp add: AddDynamicGridResidualContribution_def Let_def)

lemma finish_explicit:
  assumes "GetKind_TimeIntScheme cfg \<noteq> EULER_IMPLICIT"
  shows "BC_HeatFlux_Wall_Generic_finish cfg kind TC Tinf p A s1 D =
         (fst D, add_residual s1 p (nDim s1 + 1) (fst (snd D) - snd (snd D)))"
  using assms by (cases D) (simp add: BC_HeatFlux_Wall_Generic_finish_def Let_def)

lemma moving_wall_static:
  "\<not> dynamic_grid s \<Longrightarrow>
   BC_HeatFlux_Wall_Generic_moving_wall X geo cfg val_marker iVertex s W J =
     (J, 0, W * Norm (nDim s) (vertex_GetNormal geo val_marker iVertex))"
  by (simp add: BC_HeatFlux_Wall_Generic_moving_wall_def Let_def)

lemma moving_wall_None:
  "GetKind_TimeIntScheme cfg \<noteq> EULER_IMPLICIT \<Longrightarrow>
   fst (BC_HeatFlux_Wall_Generic_moving_wall X geo cfg val_marker iVertex s W None) = None"
  by (simp add: BC_HeatFlux_Wall_Generic_moving_wall_def Let_def AddDynamicGridResidualContribution_None)

lemma vertex_domain:
  assumes "nodes_GetDomain geo (vertex_GetNode geo val_marker iVertex)"
  shows "BC_HeatFlux_Wall_Generic_vertex X geo cfg val_marker HEAT_TRANSFER TC Tinf iVertex st =
           (let W = (if GetMarker_All_PyCustom cfg val_marker then GetCustomBoundaryHeatFlux geo val_marker iVertex
                     else TC * (Tinf - Temperature (snd (snd st)) (vertex_GetNode geo val_marker iVertex)))
            in (W, BC_HeatFlux_Wall_Generic_finish cfg HEAT_TRANSFER TC Tinf (vertex_GetNode geo val_marker iVertex)
                     (Norm (nDim (snd (snd st))) (vertex_GetNormal geo val_marker iVertex))
                     (impose_wall_velocity geo (snd (snd st)) (vertex_GetNode geo val_marker iVertex))
                     (BC_HeatFlux_Wall_Generic_moving_wall X geo cfg val_marker iVertex (snd (snd st)) W (fst (snd st)))))"
    and "BC_HeatFlux_Wall_Generic_vertex X geo cfg val_marker HEAT_FLUX TC Tinf iVertex st =
           (let W = (if GetMarker_All_PyCustom cfg val_marker then GetCustomBoundaryHeatFlux geo val_marker iVertex
                     else fst st)
            in (W, BC_HeatFlux_Wall_Generic_finish cfg HEAT_FLUX TC Tinf (vertex_GetNode geo val_marker iVertex)
                     (Norm (nDim (snd (snd st))) (vertex_GetNormal geo val_marker iVertex))
                     (impose_wall_velocity geo (snd (snd st)) (vertex_GetNode geo val_marker iVertex))
                     (BC_HeatFlux_Wall_Generic_moving_wall X geo cfg val_marker iVertex (snd (snd st)) W (fst (snd st)))))"
  using assms by (cases st; simp add: BC_HeatFlux_Wall_Generic_vertex_def Let_def)+

lemma finish_dynamic_zero:
  assumes "dynamic_grid s1"
  shows "BC_HeatFlux_Wall_Generic_finish cfg HEAT_TRANSFER 0 Tinf p A s1 D =
         BC_HeatFlux_Wall_Generic_finish cfg HEAT_FLUX 0 0 p A s1 D"
proof (cases D)
  case (fields J rc rv)
  show ?thesis
    using assms unfolding fields BC_HeatFlux_Wall_Generic_finish_def Let_def
    by (simp add: add_entry_zero add_to_row_loop_zero option.map_ident)
qed

lemma finish_static_zero:
  assumes static: "\<not> dynamic_grid s1" and imp: "GetKind_TimeIntScheme cfg = EULER_IMPLICIT"
    and Z: "\<And>r c. r \<noteq> nDim s1 + 1 \<Longrightarrow> B r c = 0"
  shows "BC_HeatFlux_Wall_Generic_finish cfg HEAT_TRANSFER 0 Tinf p A s1 (Some B, rc, rv) =
           (Some (zero_row (nVar s1) (nDim s1 + 1) B),
            snd (BC_HeatFlux_Wall_Generic_finish cfg HEAT_FLUX 0 0 p A s1 (None, rc, rv)))"
    and "fst (BC_HeatFlux_Wall_Generic_finish cfg HEAT_FLUX 0 0 p A s1 (None, rc, rv)) = None"
proof -
  have zb: "AddBlock2Diag (nVar s1) Jm p (zero_row (nVar s1) (Suc (nDim s1)) B) = Jm" for Jm
    by (rule AddBlock2Diag_zero) (use Z in \<open>simp add: zero_row_apply\<close>)
  show "BC_HeatFlux_Wall_Generic_finish cfg HEAT_TRANSFER 0 Tinf p A s1 (Some B, rc, rv) =
           (Some (zero_row (nVar s1) (nDim s1 + 1) B),
            snd (BC_HeatFlux_Wall_Generic_finish cfg HEAT_FLUX 0 0 p A s1 (None, rc, rv)))"
    using static imp unfolding BC_HeatFlux_Wall_Generic_finish_def Let_def
    by (simp add: add_entry_zero add_to_row_loop_zero zb add_residual_def)
  show "fst (BC_HeatFlux_Wall_Generic_finish cfg HEAT_FLUX 0 0 p A s1 (None, rc, rv)) = None"
    using static imp unfolding BC_HeatFlux_Wall_Generic_finish_def Let_def by simp
qed

lemma finish_frame:
  "dynamic_grid (snd (BC_HeatFlux_Wall_Generic_finish cfg kind TC Tinf p A s1 D)) = dynamic_grid s1"
  "nDim (snd (BC_HeatFlux_Wall_Generic_finish cfg kind TC Tinf p A s1 D)) = nDim s1"
  by (cases D; simp add: BC_HeatFlux_Wall_Generic_finish_def Let_def add_residual_def split: option.splits)+


lemma vertex_related:
  assumes rel: "zero_coefficient_related cfg val_marker st1 st2"
  shows "zero_coefficient_related cfg val_marker
           (BC_HeatFlux_Wall_Generic_vertex X geo cfg val_marker HEAT_TRANSFER 0 Tinfinity iVertex st1)
           (BC_HeatFlux_Wall_Generic_vertex X geo cfg val_marker HEAT_FLUX 0 0 iVertex st2)"
proof -
  let ?p = "vertex_GetNode geo val_marker iVertex"
  let ?s = "snd (snd st2)"
  let ?s1 = "impose_wall_velocity geo ?s ?p"
  let ?W = "if GetMarker_All_PyCustom cfg val_marker then GetCustomBoundaryHeatFlux geo val_marker iVertex else 0"
  let ?A = "Norm (nDim ?s) (vertex_GetNormal geo val_marker iVertex)"
  have s: "snd (snd st1) = ?s" using rel by (simp add: zero_coefficient_related_def)
  have q2: "(if GetMarker_All_PyCustom cfg val_marker then GetCustomBoundaryHeatFlux geo val_marker iVertex
             else fst st2) = ?W"
    using rel by (simp add: zero_coefficient_related_def)
  have fr: "dynamic_grid ?s1 = dynamic_grid ?s" "nDim ?s1 = nDim ?s" "nVar ?s1 = nVar ?s"
    by (simp_all add: impose_wall_velocity_frame)
  show ?thesis
  proof (cases "nodes_GetDomain geo ?p")
    case False
    then have "BC_HeatFlux_Wall_Generic_vertex X geo cfg val_marker HEAT_TRANSFER 0 Tinfinity iVertex st1 = st1"
      "BC_HeatFlux_Wall_Generic_vertex X geo cfg val_marker HEAT_FLUX 0 0 iVertex st2 = st2"
      by (cases st1; cases st2; simp add: BC_HeatFlux_Wall_Generic_vertex_def Let_def)+
    then show ?thesis using rel by simp
  next
    case dom: True
    let ?D1 = "BC_HeatFlux_Wall_Generic_moving_wall X geo cfg val_marker iVertex ?s ?W (fst (snd st1))"
    let ?D2 = "BC_HeatFlux_Wall_Generic_moving_wall X geo cfg val_marker iVertex ?s ?W (fst (snd st2))"
    have v1: "BC_HeatFlux_Wall_Generic_vertex X geo cfg val_marker HEAT_TRANSFER 0 Tinfinity iVertex st1 =
                (?W, BC_HeatFlux_Wall_Generic_finish cfg HEAT_TRANSFER 0 Tinfinity ?p ?A ?s1 ?D1)"
      unfolding vertex_domain(1) [OF dom] s Let_def by simp
    have v2: "BC_HeatFlux_Wall_Generic_vertex X geo cfg val_marker HEAT_FLUX 0 0 iVertex st2 =
                (?W, BC_HeatFlux_Wall_Generic_finish cfg HEAT_FLUX 0 0 ?p ?A ?s1 ?D2)"
      unfolding vertex_domain(2) [OF dom] q2 Let_def by simp
    show ?thesis
    proof (cases "GetKind_TimeIntScheme cfg = EULER_IMPLICIT")
      case exp: False
      have J: "fst (snd st1) = None" "fst (snd st2) = None"
        using rel exp by (simp_all add: zero_coefficient_related_def)
      show ?thesis
        unfolding v1 v2 J finish_explicit [OF exp]
        using exp by (simp add: zero_coefficient_related_def moving_wall_None)
    next
      case imp: True
      show ?thesis
      proof (cases "dynamic_grid ?s")
        case dyn: True
        have J: "fst (snd st1) = fst (snd st2)" using rel dyn imp s by (simp add: zero_coefficient_related_def)
        have d1: "dynamic_grid ?s1" using dyn by (simp add: fr)
        show ?thesis
          unfolding v1 v2 J finish_dynamic_zero [OF d1]
          using imp dyn by (simp add: zero_coefficient_related_def finish_frame fr)
      next
        case static: False
        obtain B where J: "fst (snd st1) = Some B" "fst (snd st2) = None"
          and Z: "\<And>r c. r \<noteq> nDim ?s + 1 \<Longrightarrow> B r c = 0"
          using rel static imp s by (auto simp: zero_coefficient_related_def)
        have Z1: "\<And>r c. r \<noteq> nDim ?s1 + 1 \<Longrightarrow> B r c = 0" using Z by (simp add: fr)
        have st1: "\<not> dynamic_grid ?s1" using static by (simp add: fr)
        note fz = finish_static_zero [OF st1 imp Z1]
        have D1: "?D1 = (Some B, 0, ?W * ?A)" and D2: "?D2 = (None, 0, ?W * ?A)"
          unfolding J by (rule moving_wall_static [OF static])+
        have F1: "BC_HeatFlux_Wall_Generic_finish cfg HEAT_TRANSFER 0 Tinfinity ?p ?A ?s1 ?D1 =
                    (Some (zero_row (nVar ?s1) (nDim ?s1 + 1) B),
                     snd (BC_HeatFlux_Wall_Generic_finish cfg HEAT_FLUX 0 0 ?p ?A ?s1 ?D2))"
          unfolding D1 D2 by (rule fz(1))
        have F2: "fst (BC_HeatFlux_Wall_Generic_finish cfg HEAT_FLUX 0 0 ?p ?A ?s1 ?D2) = None"
          unfolding D2 by (rule fz(2))
        show ?thesis
          unfolding v1 v2 F1
          using imp static Z F2 by (simp add: zero_coefficient_related_def finish_frame fr zero_row_apply)
      qed
    qed
  qed
qed

lemma fold_related:
  "zero_coefficient_related cfg val_marker st1 st2 \<Longrightarrow>
   zero_coefficient_related cfg val_marker
     (fold (BC_HeatFlux_Wall_Generic_vertex X geo cfg val_marker HEAT_TRANSFER 0 Tinfinity) xs st1)
     (fold (BC_HeatFlux_Wall_Generic_vertex X geo cfg val_marker HEAT_FLUX 0 0) xs st2)"
  by (induction xs arbitrary: st1 st2) (simp_all add: vertex_related)


lemma heat_transfer_zero_static_vertex:
  fixes X geo cfg val_marker iVertex Tinfinity q J sv
  assumes dom: "nodes_GetDomain geo (vertex_GetNode geo val_marker iVertex)"
    and nc: "\<not> GetMarker_All_PyCustom cfg val_marker"
    and static: "\<not> dynamic_grid sv"
  defines "V \<equiv> BC_HeatFlux_Wall_Generic_vertex X geo cfg val_marker HEAT_TRANSFER 0 Tinfinity iVertex (q, J, sv)"
  defines "p \<equiv> vertex_GetNode geo val_marker iVertex"
  shows "fst V = 0"
    and "LinSysRes (snd (snd V)) p (nDim sv + 1) = LinSysRes sv p (nDim sv + 1)"
    and "Jacobian (snd (snd V)) (p * nVar sv + (nDim sv + 1)) = Jacobian sv (p * nVar sv + (nDim sv + 1))"
proof -
  let ?s1 = "impose_wall_velocity geo sv p"
  let ?A = "Norm (nDim sv) (vertex_GetNormal geo val_marker iVertex)"
  have fr: "dynamic_grid ?s1 = dynamic_grid sv" "nDim ?s1 = nDim sv" "nVar ?s1 = nVar sv"
    "Jacobian ?s1 = Jacobian sv"
    by (simp_all add: impose_wall_velocity_frame)
  have V: "V = (0, BC_HeatFlux_Wall_Generic_finish cfg HEAT_TRANSFER 0 Tinfinity p ?A ?s1 (J, 0, 0))"
    unfolding V_def p_def vertex_domain(1) [OF dom] Let_def
    using nc static by (simp add: moving_wall_static)
  show "fst V = 0" unfolding V by simp
  have energy_row: "\<not> (\<exists>i. 1 \<le> i \<and> i \<le> nDim sv \<and> p * nVar sv + (nDim sv + 1) = p * nVar sv + i)"
    by auto
  have del: "delete_momentum_rows (nDim sv) (nVar sv) p Jm (p * nVar sv + (nDim sv + 1))
               = Jm (p * nVar sv + (nDim sv + 1))" for Jm
    by (rule ext) (simp only: delete_momentum_rows_apply energy_row if_False)
  have add: "AddBlock2Diag (nVar sv) Jm p (zero_row (nVar sv) (nDim sv + 1) B) (p * nVar sv + (nDim sv + 1))
               = Jm (p * nVar sv + (nDim sv + 1))" for Jm B
    by (rule ext) (auto simp: AddBlock2Diag_def zero_row_apply)
  show "LinSysRes (snd (snd V)) p (nDim sv + 1) = LinSysRes sv p (nDim sv + 1)"
    unfolding V BC_HeatFlux_Wall_Generic_finish_def Let_def
    by (simp add: add_residual_LinSysRes impose_wall_velocity_LinSysRes add_residual_def split: option.splits)
  show "Jacobian (snd (snd V)) (p * nVar sv + (nDim sv + 1)) = Jacobian sv (p * nVar sv + (nDim sv + 1))"
  proof (cases "GetKind_TimeIntScheme cfg = EULER_IMPLICIT")
    case False
    then show ?thesis
      unfolding V BC_HeatFlux_Wall_Generic_finish_def Let_def
      by (simp add: add_residual_frame fr)
  next
    case imp: True
    show ?thesis
    proof (cases J)
      case None
      then show ?thesis
        using imp del unfolding V BC_HeatFlux_Wall_Generic_finish_def Let_def
        by (simp add: add_residual_frame fr)
    next
      case (Some B)
      then show ?thesis
        using imp static del add unfolding V BC_HeatFlux_Wall_Generic_finish_def Let_def
        by (simp add: add_residual_frame fr add_entry_zero add_to_row_loop_zero)
    qed
  qed
qed


text \<open>
  Claim C7. When the transfer coefficient computed from the configuration is zero, the
  heat-transfer wall condition leaves the solver in the same state, residual and Jacobian
  included, as the heat-flux wall condition on the same marker with zero wall heat flux.
  At a vertex of the domain on a static grid and a marker that is not customizable, the
  wall heat flux computed with a zero coefficient is zero, the energy entry of the
  residual of the wall point is unchanged and so is the energy row of the Jacobian.
\<close>

theorem zero_transfer_coefficient_is_zero_heat_flux:
  fixes X geo cfg val_marker s iVertex Tinfinity q J sv
  defines "V \<equiv> BC_HeatFlux_Wall_Generic_vertex X geo cfg val_marker HEAT_TRANSFER 0 Tinfinity iVertex (q, J, sv)"
  defines "iPoint \<equiv> vertex_GetNode geo val_marker iVertex"
  assumes tc: "GetWall_HeatTransfer_Coefficient cfg (GetMarker_All_TagBound cfg val_marker) *
                 GetTemperature_Ref cfg / GetHeat_Flux_Ref cfg = 0"
    and hf: "GetWall_HeatFlux cfg (GetMarker_All_TagBound cfg val_marker) / GetHeat_Flux_Ref cfg = 0"
  shows "BC_HeatTransfer_Wall X geo cfg val_marker s = BC_HeatFlux_Wall X geo cfg val_marker s \<and>
         (nodes_GetDomain geo iPoint \<and> \<not> GetMarker_All_PyCustom cfg val_marker \<and> \<not> dynamic_grid sv \<longrightarrow>
            fst V = 0 \<and>
            LinSysRes (snd (snd V)) iPoint (nDim sv + 1) = LinSysRes sv iPoint (nDim sv + 1) \<and>
            Jacobian (snd (snd V)) (iPoint * nVar sv + (nDim sv + 1)) =
              Jacobian sv (iPoint * nVar sv + (nDim sv + 1)))"
proof -
  let ?Tinf = "GetWall_HeatTransfer_Temperature cfg (GetMarker_All_TagBound cfg val_marker) / GetTemperature_Ref cfg"
  let ?J1 = "if (dynamic_grid s \<or> HEAT_TRANSFER = HEAT_TRANSFER) \<and> GetKind_TimeIntScheme cfg = EULER_IMPLICIT
             then Some (\<lambda>_ _. 0) else None"
  let ?J2 = "if (dynamic_grid s \<or> HEAT_FLUX = HEAT_TRANSFER) \<and> GetKind_TimeIntScheme cfg = EULER_IMPLICIT
             then Some (\<lambda>_ _. 0) else None"
  have init: "zero_coefficient_related cfg val_marker (0, ?J1, s) (0, ?J2, s)"
    by (simp add: zero_coefficient_related_def)
  have ht: "BC_HeatTransfer_Wall X geo cfg val_marker s =
              snd (snd (fold (BC_HeatFlux_Wall_Generic_vertex X geo cfg val_marker HEAT_TRANSFER 0 ?Tinf)
                          [0..<nVertex geo val_marker] (0, ?J1, s)))"
    unfolding BC_HeatTransfer_Wall_def BC_HeatFlux_Wall_Generic_def Let_def tc by simp
  have hfl: "BC_HeatFlux_Wall X geo cfg val_marker s =
              snd (snd (fold (BC_HeatFlux_Wall_Generic_vertex X geo cfg val_marker HEAT_FLUX 0 0)
                          [0..<nVertex geo val_marker] (0, ?J2, s)))"
    unfolding BC_HeatFlux_Wall_def BC_HeatFlux_Wall_Generic_def Let_def hf by simp
  have eq: "BC_HeatTransfer_Wall X geo cfg val_marker s = BC_HeatFlux_Wall X geo cfg val_marker s"
    unfolding ht hfl
    using fold_related [OF init, of X geo ?Tinf "[0..<nVertex geo val_marker]"]
    by (simp only: zero_coefficient_related_def)
  have vx: "fst V = 0 \<and>
            LinSysRes (snd (snd V)) iPoint (nDim sv + 1) = LinSysRes sv iPoint (nDim sv + 1) \<and>
            Jacobian (snd (snd V)) (iPoint * nVar sv + (nDim sv + 1)) =
              Jacobian sv (iPoint * nVar sv + (nDim sv + 1))"
    if "nodes_GetDomain geo iPoint" "\<not> GetMarker_All_PyCustom cfg val_marker" "\<not> dynamic_grid sv"
    using heat_transfer_zero_static_vertex [of geo val_marker iVertex cfg sv X Tinfinity q J] that
    unfolding V_def iPoint_def by blast
  from eq vx show ?thesis by blast
qed

theorem zero_transfer_coefficient_is_zero_heat_flux_witness:
  "GetWall_HeatTransfer_Coefficient ex_config (GetMarker_All_TagBound ex_config 0) *
     GetTemperature_Ref ex_config / GetHeat_Flux_Ref ex_config = 0 \<and>
   GetWall_HeatFlux ex_config (GetMarker_All_TagBound ex_config 0) / GetHeat_Flux_Ref ex_config = 0 \<and>
   nodes_GetDomain ex_geometry (vertex_GetNode ex_geometry 0 0) \<and>
   \<not> GetMarker_All_PyCustom ex_config 0 \<and> \<not> dynamic_grid ex_solver \<and>
   BC_HeatTransfer_Wall ex_numerics ex_geometry ex_config 0 ex_solver =
     BC_HeatFlux_Wall ex_numerics ex_geometry ex_config 0 ex_solver \<and>
   LinSysRes (snd (snd (BC_HeatFlux_Wall_Generic_vertex ex_numerics ex_geometry ex_config 0 HEAT_TRANSFER 0 2 0
                          (0, Some (\<lambda>_ _. 0), ex_solver)))) 0 3 = 10 \<and>
   Jacobian (snd (snd (BC_HeatFlux_Wall_Generic_vertex ex_numerics ex_geometry ex_config 0 HEAT_TRANSFER 0 2 0
                          (0, Some (\<lambda>_ _. 0), ex_solver)))) 3 = (\<lambda>_. 9)"
proof -
  have tc: "GetWall_HeatTransfer_Coefficient ex_config (GetMarker_All_TagBound ex_config 0) *
     GetTemperature_Ref ex_config / GetHeat_Flux_Ref ex_config = 0"
    and hf: "GetWall_HeatFlux ex_config (GetMarker_All_TagBound ex_config 0) / GetHeat_Flux_Ref ex_config = 0"
    by (simp_all add: ex_config_def)
  have c: "nodes_GetDomain ex_geometry (vertex_GetNode ex_geometry 0 0)"
    "\<not> GetMarker_All_PyCustom ex_config 0" "\<not> dynamic_grid ex_solver"
    by (simp_all add: ex_defs)
  have p: "vertex_GetNode ex_geometry 0 0 = 0" by (simp add: ex_geometry_def)
  have v: "nDim ex_solver = 2" "nVar ex_solver = 4" "LinSysRes ex_solver 0 3 = 10" "Jacobian ex_solver 3 = (\<lambda>_. 9)"
    by (simp_all add: ex_solver_def)
  show ?thesis
    using zero_transfer_coefficient_is_zero_heat_flux [OF tc hf, where X = ex_numerics and geo = ex_geometry
        and s = ex_solver and sv = ex_solver and iVertex = 0 and Tinfinity = 2 and q = 0
        and J = "Some (\<lambda>_ _. 0)"] tc hf c
    by (simp add: p v)
qed

end
